theory Spec2Isabelle
  imports Complex_Main "HOL-Library.Sublist"
begin

section \<open>The live update channel\<close>

subsection \<open>The page around a WebSocketManager\<close>

text \<open>
  The managers act on the page through \<open>connectionManager.updateStatus\<close>,
  \<open>setTimeout(() => this.connect(), d)\<close>, \<open>setInterval(..., 10000)\<close>,
  \<open>io(WEBSOCKET_URL, ...)\<close>, \<open>this.socket.emit(...)\<close> and
  \<open>connectionManager.toast(...)\<close>. The record keeps what each of them left behind:
  \<^item> \<open>status\<close>: the last status shown;
  \<^item> \<open>timeouts\<close>: the delays (ms) of the reconnect timeouts that have not fired yet,
    oldest first; \<open>scheduled\<close>: the delays of all reconnect timeouts ever set;
  \<^item> \<open>intervals\<close>: the periods (ms) of the polling timers started;
  \<^item> \<open>opened\<close>: how many sockets \<open>io(...)\<close> has created; \<open>inflight\<close>: how many of
    them have reported neither \<open>connect\<close> nor \<open>connect_error\<close> yet (book-keeping of the
    transport, no variable of the program);
  \<^item> \<open>emitted\<close>: the requests emitted to the server; \<open>toasts\<close>: the toasts shown.
\<close>

record page =
  status :: string
  timeouts :: "nat list"
  scheduled :: "nat list"
  intervals :: "nat list"
  opened :: nat
  inflight :: nat
  emitted :: "string list"
  toasts :: "string list"

definition updateStatus :: "string \<Rightarrow> 'a page_scheme \<Rightarrow> 'a page_scheme" where
  "updateStatus st s = s\<lparr>status := st\<rparr>"

definition setTimeout_connect :: "nat \<Rightarrow> 'a page_scheme \<Rightarrow> 'a page_scheme" where
  "setTimeout_connect d s = s\<lparr>timeouts := timeouts s @ [d], scheduled := scheduled s @ [d]\<rparr>"

definition setInterval_poll :: "nat \<Rightarrow> 'a page_scheme \<Rightarrow> 'a page_scheme" where
  "setInterval_poll d s = s\<lparr>intervals := intervals s @ [d]\<rparr>"

definition io :: "'a page_scheme \<Rightarrow> 'a page_scheme" where
  "io s = s\<lparr>opened := Suc (opened s), inflight := Suc (inflight s)\<rparr>"

definition emit :: "string \<Rightarrow> 'a page_scheme \<Rightarrow> 'a page_scheme" where
  "emit ev s = s\<lparr>emitted := emitted s @ [ev]\<rparr>"

definition toast :: "string \<Rightarrow> 'a page_scheme \<Rightarrow> 'a page_scheme" where
  "toast msg s = s\<lparr>toasts := toasts s @ [msg]\<rparr>"

text \<open>The transport reports an outcome of a socket: one more socket is resolved.\<close>

definition resolved :: "'a page_scheme \<Rightarrow> 'a page_scheme" where
  "resolved s = s\<lparr>inflight := inflight s - 1\<rparr>"

text \<open>
  What can happen to a manager: a socket fires \<open>connect\<close>, \<open>disconnect\<close> or
  \<open>connect_error\<close> (a timeout of the transport arrives as \<open>connect_error\<close>), or the
  oldest pending reconnect timeout fires and runs \<open>this.connect()\<close>; its flag says whether
  \<open>io(...)\<close> returns (\<open>True\<close>) or throws (\<open>False\<close>).
\<close>

datatype event = Connect | Disconnect | ConnectError | Timer bool

fun run :: "(event \<Rightarrow> 's \<Rightarrow> 's) \<Rightarrow> event list \<Rightarrow> 's \<Rightarrow> 's" where
  "run f [] s = s"
| "run f (e # es) s = run f es (f e s)"

text \<open>\<open>failures n\<close>: \<open>n\<close> times in a row, the attempt in flight fails and the reconnect
  timeout it set (if any) fires.\<close>

fun failures :: "nat \<Rightarrow> event list" where
  "failures 0 = []"
| "failures (Suc n) = ConnectError # Timer True # failures n"

text \<open>
  An event sequence in which the transport reports one outcome per socket: \<open>connect\<close> and
  \<open>connect_error\<close> arrive only while a socket is unresolved, a timeout fires only when one
  is pending.
\<close>

definition enabled :: "event \<Rightarrow> 'a page_scheme \<Rightarrow> bool" where
  "enabled e s =
     (case e of
        Connect \<Rightarrow> 0 < inflight s
      | ConnectError \<Rightarrow> 0 < inflight s
      | Disconnect \<Rightarrow> True
      | Timer ok \<Rightarrow> timeouts s \<noteq> [])"

fun orderly :: "(event \<Rightarrow> 'a page_scheme \<Rightarrow> 'a page_scheme) \<Rightarrow> event list \<Rightarrow> 'a page_scheme \<Rightarrow> bool" where
  "orderly f [] s = True"
| "orderly f (e # es) s = (enabled e s \<and> orderly f es (f e s))"

subsection \<open>src/script.js: WebSocketManager (linear delays, bound 5)\<close>

record WebSocketManager = page +
  retries :: nat
  maxRetries :: nat

definition new_WebSocketManager :: WebSocketManager where
  "new_WebSocketManager =
     \<lparr>status = [], timeouts = [], scheduled = [], intervals = [], opened = 0, inflight = 0,
      emitted = [], toasts = [], retries = 0, maxRetries = 5\<rparr>"

definition fallback :: "WebSocketManager \<Rightarrow> WebSocketManager" where
  "fallback s = setInterval_poll 10000 s"

definition connect :: "bool \<Rightarrow> WebSocketManager \<Rightarrow> WebSocketManager" where
  "connect io_ok s = (if io_ok then io s else fallback s)"

definition handleReconnect :: "WebSocketManager \<Rightarrow> WebSocketManager" where
  "handleReconnect s =
     (if retries s < maxRetries s then
        (let s1 = s\<lparr>retries := retries s + 1\<rparr>
         in setTimeout_connect (3000 * retries s1) s1)
      else fallback (updateStatus ''disconnected'' s))"

text \<open>The handlers that \<open>registerEvents\<close> puts on the socket.\<close>

definition on_connect :: "WebSocketManager \<Rightarrow> WebSocketManager" where
  "on_connect s =
     emit ''request_3d_data'' (emit ''request_live_data''
       ((updateStatus ''connected'' s)\<lparr>retries := 0\<rparr>))"

definition on_disconnect :: "WebSocketManager \<Rightarrow> WebSocketManager" where
  "on_disconnect s = updateStatus ''disconnected'' s"

definition on_connect_error :: "WebSocketManager \<Rightarrow> WebSocketManager" where
  "on_connect_error s = handleReconnect s"

fun fire :: "event \<Rightarrow> WebSocketManager \<Rightarrow> WebSocketManager" where
  "fire Connect s = on_connect (resolved s)"
| "fire Disconnect s = on_disconnect s"
| "fire ConnectError s = on_connect_error (resolved s)"
| "fire (Timer ok) s =
     (case timeouts s of [] \<Rightarrow> s | d # ds \<Rightarrow> connect ok (s\<lparr>timeouts := ds\<rparr>))"

text \<open>\<open>VotingAnalyticsApp.init\<close> calls \<open>this.wsMgr.connect()\<close> on the new manager.\<close>

definition started :: WebSocketManager where
  "started = connect True new_WebSocketManager"

subsection \<open>src/unnamed/part_000: WebSocketManager.handleConnectionError\<close>

text \<open>The same manager with fields \<open>reconnectAttempts\<close> (here \<open>retries\<close>) and
  \<open>maxReconnectAttempts\<close> (here \<open>maxRetries\<close>); it shows the status "connecting" first.\<close>

definition handleConnectionError_part000 :: "WebSocketManager \<Rightarrow> WebSocketManager" where
  "handleConnectionError_part000 s0 =
     (let s = updateStatus ''connecting'' s0 in
      if retries s < maxRetries s then
        (let s1 = s\<lparr>retries := retries s + 1\<rparr>
         in setTimeout_connect (3000 * retries s1) s1)
      else setInterval_poll 10000 (updateStatus ''disconnected'' s))"

subsection \<open>src/yatish/script.js: WebSocketManager (exponential delays)\<close>

record WebSocketManager_yatish = page +
  reconnectAttempts :: nat
  maxDelay :: nat

definition new_WebSocketManager_yatish :: WebSocketManager_yatish where
  "new_WebSocketManager_yatish =
     \<lparr>status = [], timeouts = [], scheduled = [], intervals = [], opened = 0, inflight = 0,
      emitted = [], toasts = [], reconnectAttempts = 0, maxDelay = 30000\<rparr>"

definition startPollingFallback :: "WebSocketManager_yatish \<Rightarrow> WebSocketManager_yatish" where
  "startPollingFallback s = setInterval_poll 10000 s"

definition handleConnectionError :: "WebSocketManager_yatish \<Rightarrow> WebSocketManager_yatish" where
  "handleConnectionError s0 =
     (let s1 = updateStatus ''connecting'' s0;
          s2 = s1\<lparr>reconnectAttempts := reconnectAttempts s1 + 1\<rparr>;
          delay = min (maxDelay s2) (2 ^ reconnectAttempts s2 * 1000);
          s3 = setTimeout_connect delay s2;
          s4 = (if reconnectAttempts s3 mod 2 = 0
                then toast ''Reconnecting to realtime service...'' s3 else s3)
      in if 6 < reconnectAttempts s4 then startPollingFallback s4 else s4)"

definition connect_yatish :: "bool \<Rightarrow> WebSocketManager_yatish \<Rightarrow> WebSocketManager_yatish" where
  "connect_yatish io_ok s = (if io_ok then io s else handleConnectionError s)"

text \<open>The handlers that \<open>setupEventHandlers\<close> puts on the socket.\<close>

definition on_connect_yatish :: "WebSocketManager_yatish \<Rightarrow> WebSocketManager_yatish" where
  "on_connect_yatish s =
     emit ''request_blockchain_status'' (emit ''request_3d_data'' (emit ''request_live_data''
       ((updateStatus ''connected'' s)\<lparr>reconnectAttempts := 0\<rparr>)))"

fun fire_yatish :: "event \<Rightarrow> WebSocketManager_yatish \<Rightarrow> WebSocketManager_yatish" where
  "fire_yatish Connect s = on_connect_yatish (resolved s)"
| "fire_yatish Disconnect s = updateStatus ''disconnected'' s"
| "fire_yatish ConnectError s = handleConnectionError (resolved s)"
| "fire_yatish (Timer ok) s =
     (case timeouts s of [] \<Rightarrow> s | d # ds \<Rightarrow> connect_yatish ok (s\<lparr>timeouts := ds\<rparr>))"

definition started_yatish :: WebSocketManager_yatish where
  "started_yatish = connect_yatish True new_WebSocketManager_yatish"

section \<open>Polling\<close>

subsection \<open>What a request settles to\<close>

text \<open>
  \<open>Promise.allSettled\<close> reports each request as fulfilled with a value or rejected with
  the error it threw. \<open>Fulfilled None\<close> is a promise fulfilled with \<open>undefined\<close> (an
  \<open>async\<close> function that runs off its end).

  The backend is a function from the number of the \<open>fetch\<close> call within one request
  (0 for the first) to what that call brings: \<open>Inl msg\<close> when \<open>fetch\<close> throws or the
  response is not \<open>ok\<close> (the message of the error thrown), \<open>Inr v\<close> for the JSON value
  of an \<open>ok\<close> response.
\<close>

datatype 'a settled = Fulfilled "'a option" | Rejected string

type_synonym 'a backend = "nat \<Rightarrow> string + 'a"

subsection \<open>src/yatish/script.js: APIService.request\<close>

record APIService_yatish =
  maxRetries_api :: nat
  maxDelay_api :: nat

definition new_APIService_yatish :: APIService_yatish where
  "new_APIService_yatish = \<lparr>maxRetries_api = 5, maxDelay_api = 30000\<rparr>"

text \<open>
  The \<open>while (attempt <= this.maxRetries)\<close> loop from a given \<open>attempt\<close>; the call of
  \<open>fetch\<close> in round \<open>attempt\<close> is call number \<open>attempt\<close> of the request. \<open>ws\<close> collects
  the delays awaited so far. The result: how the promise settles, the delays awaited, and
  the toasts shown.
\<close>

function request_loop ::
  "APIService_yatish \<Rightarrow> 'a backend \<Rightarrow> nat \<Rightarrow> nat list \<Rightarrow> 'a settled \<times> nat list \<times> string list" where
  "request_loop api fetch attempt ws =
     (if attempt \<le> maxRetries_api api then
        (case fetch attempt of
           Inr v \<Rightarrow> (Fulfilled (Some v), ws, [])
         | Inl err \<Rightarrow>
             if maxRetries_api api < attempt + 1 then
               (Rejected err, ws, [''API error: '' @ err])
             else
               request_loop api fetch (attempt + 1)
                 (ws @ [min (maxDelay_api api) (2 ^ (attempt + 1) * 500)]))
      else (Fulfilled None, ws, []))"
  by pat_completeness auto
termination
  by (relation "measure (\<lambda>(api, fetch, attempt, ws). Suc (maxRetries_api api) - attempt)") auto

declare request_loop.simps [simp del]

definition request_yatish ::
  "APIService_yatish \<Rightarrow> 'a backend \<Rightarrow> 'a settled \<times> nat list \<times> string list" where
  "request_yatish api fetch = request_loop api fetch 0 []"

subsection \<open>src/yatish/script.js: the callback of startPollingFallback\<close>

text \<open>
  One round of the polling timer on a display state \<open>'st\<close>. The three requests run against
  their backends; the parameters \<open>handleVotingUpdate_yatish\<close> and \<open>updateNetworkStats_yatish\<close>
  are the two handlers of that manager, each taken with the object the callback builds from
  the value (the predictions are pulled and not used). A value \<open>undefined\<close> makes the
  callback throw while it builds that object; its \<open>catch\<close> ignores the error and the rest of
  the callback is skipped. The result: the display state and the toasts the requests showed.
\<close>

definition poll_yatish ::
  "('a \<Rightarrow> 'st \<Rightarrow> 'st) \<Rightarrow> ('a \<Rightarrow> 'st \<Rightarrow> 'st) \<Rightarrow> APIService_yatish \<Rightarrow>
   'a backend \<Rightarrow> 'a backend \<Rightarrow> 'a backend \<Rightarrow> 'st \<Rightarrow> 'st \<times> string list" where
  "poll_yatish handleVotingUpdate_yatish updateNetworkStats_yatish api
        analytics_pull predictions_pull transactions_pull st =
     (case (request_yatish api analytics_pull, request_yatish api predictions_pull,
            request_yatish api transactions_pull) of
        ((ra, wa, ta), (rp, wp, tp), (rt, wt, tt)) \<Rightarrow>
          (case ra of
             Fulfilled None \<Rightarrow> (st, ta @ tp @ tt)
           | Fulfilled (Some v) \<Rightarrow>
               (case rt of
                  Fulfilled (Some w) \<Rightarrow>
                    (updateNetworkStats_yatish w (handleVotingUpdate_yatish v st), ta @ tp @ tt)
                | _ \<Rightarrow> (handleVotingUpdate_yatish v st, ta @ tp @ tt))
           | Rejected e \<Rightarrow>
               (case rt of
                  Fulfilled (Some w) \<Rightarrow> (updateNetworkStats_yatish w st, ta @ tp @ tt)
                | _ \<Rightarrow> (st, ta @ tp @ tt))))"

section \<open>Constituency search\<close>

text \<open>
  Strings are lists of code units \<open>'c\<close>. \<open>String.prototype.toLowerCase\<close> is a parameter
  \<open>lower\<close> of the search, and so is the set \<open>ws\<close> of the code units that
  \<open>String.prototype.trim\<close> strips; \<open>toLowerCase_ascii\<close> and \<open>whitespace_ascii\<close> are what
  they are on ASCII text.
\<close>

definition toLowerCase_ascii :: "string \<Rightarrow> string" where
  "toLowerCase_ascii s =
     map (\<lambda>c. if (65::nat) \<le> of_char c \<and> of_char c \<le> (90::nat)
              then char_of (of_char c + (32::nat)) else c) s"

definition whitespace_ascii :: "char \<Rightarrow> bool" where
  "whitespace_ascii c = (c \<in> set [CHR '' '', CHR 0x09, CHR 0x0A, CHR 0x0B, CHR 0x0C, CHR 0x0D])"

definition trim :: "('c \<Rightarrow> bool) \<Rightarrow> 'c list \<Rightarrow> 'c list" where
  "trim ws s = rev (dropWhile ws (rev (dropWhile ws s)))"

text \<open>\<open>s.includes(t)\<close>: \<open>t\<close> occurs in \<open>s\<close> at some position.\<close>

fun includes_str :: "'c list \<Rightarrow> 'c list \<Rightarrow> bool" where
  "includes_str [] t = (t = [])"
| "includes_str (x # xs) t = (prefix t (x # xs) \<or> includes_str xs t)"

text \<open>
  src/script.js, \<open>SearchManager.search\<close>. \<open>None\<close>: the query is too short, the results pane
  is hidden (\<open>hideResults\<close>) and nothing is shown; \<open>Some rs\<close>: \<open>showResults(rs, 'Results')\<close>.
\<close>

definition search ::
  "('c list \<Rightarrow> 'c list) \<Rightarrow> ('c \<Rightarrow> bool) \<Rightarrow> 'c list list \<Rightarrow> 'c list \<Rightarrow> 'c list list option" where
  "search lower ws constituencies query0 =
     (let query = trim ws query0 in
      if length query < 2 then None
      else Some (take 10 (filter (\<lambda>c. includes_str (lower c) (lower query)) constituencies)))"

text \<open>
  src/yatish/script.js, \<open>SearchManager.performSearch\<close> (the same in src/unnamed/part_000 and
  part_001 up to the message shown for an empty list). \<open>None\<close>: \<open>hideSearchResults\<close>;
  \<open>Some rs\<close>: \<open>displaySearchResults(rs)\<close>. The query is not trimmed.
\<close>

definition performSearch ::
  "('c list \<Rightarrow> 'c list) \<Rightarrow> 'c list list \<Rightarrow> 'c list \<Rightarrow> 'c list list option" where
  "performSearch lower constituencies query =
     (if query = [] \<or> length query < 2 then None
      else Some (take 10 (filter (\<lambda>c. includes_str (lower c) (lower query)) constituencies)))"

section \<open>The live transaction feed\<close>

















section \<open>What the application shows\<close>

subsection \<open>Payloads\<close>

text \<open>
  The JSON payloads, with a field that may be missing (or \<open>null\<close>) as an \<open>option\<close>. Counts are
  integers, fractions are rationals. An element of \<open>ai_insights\<close> is a string or an object;
  \<open>importance\<close> is \<open>Some n\<close> when \<open>typeof i.importance === 'number'\<close>.
\<close>

record candidate =
  name :: string
  votes :: int

datatype insight =
  InsightText string
| Insight (title: "string option") (description: "string option")
    (confidence: "rat option") (importance: "int option")

record election_data =
  current_turnout :: "int option"
  candidates :: "candidate list option"

record ai_predictions =
  predictions_confidence :: "rat option"

text \<open>A demographic breakdown: the object (\<open>age_groups\<close>, \<open>gender\<close>, \<open>locations\<close>) may be
  missing, and so may its field of counts; the counts are the key/value pairs in order.\<close>

type_synonym counts = "(string \<times> int) list"

record demographics =
  age_groups :: "counts option option"
  gender :: "counts option option"
  locations :: "counts option option"

record analytics =
  analytics_candidates :: "candidate list option"
  analytics_ai_insights :: "insight list option"
  analytics_ai_predictions :: "ai_predictions option"
  analytics_demographics :: "demographics option"

record voting_update =
  update_election_data :: "election_data option"
  update_ai_insights :: "insight list option"
  update_analytics :: "analytics option"

record prediction =
  prediction_name :: "string option"
  probability :: "rat option"

record prediction_update =
  predictions :: "prediction list option"
  leading_candidate :: "string option"
  update_confidence :: "rat option"

subsection \<open>The display\<close>

text \<open>
  What an element of the page shows, by the template that wrote it:
  \<^item> \<open>Text t\<close>: the literal text \<open>t\<close>;
  \<^item> \<open>Number n\<close>: the number \<open>n\<close> assigned as text; \<open>LocaleNumber n\<close>: \<open>n.toLocaleString()\<close>;
  \<^item> \<open>Percent n\<close>: \<open>`${n}%`\<close> for the rounded \<open>n\<close>;
  \<^item> \<open>Cards is\<close>: the HTML that \<open>updateAIInsights\<close> renders from the insights \<open>is\<close>, one card
    each;
  \<^item> \<open>PredictionText c p\<close>:
    \<open>`AI is predicting ${c} will win with ${p.toFixed(1)}% probability`\<close>, where a missing
    \<open>c\<close> prints as "undefined";
  \<^item> \<open>ConfidenceText c\<close>: \<open>`${c}%`\<close>, likewise.

  The page is a map from the id (or selector) of an element to what it shows; an id outside
  its domain is an element the page does not have. The charts of \<open>chartMgr.charts\<close> are a map
  from the id of a chart to its data: \<open>Created\<close> as long as no update has replaced what the
  chart was created with, the key/value pairs of a demographic breakdown, or the names and
  probabilities of the predictions. The colours of the datasets are constants of the code and
  left out.
\<close>

datatype content =
  Text string
| Number int
| LocaleNumber int
| Percent int
| Cards "insight list"
| PredictionText "string option" rat
| ConfidenceText "rat option"

datatype chart_data =
  Created
| Counts counts
| Probabilities "(string option \<times> rat option) list"

record app =
  initialized :: bool
  liveVoteCount :: int
  dom :: "string \<rightharpoonup> content"
  charts :: "string \<rightharpoonup> chart_data"

text \<open>\<open>const el = document.getElementById(id); if (el) el.textContent = v;\<close>\<close>

definition set_content :: "string \<Rightarrow> content \<Rightarrow> app \<Rightarrow> app" where
  "set_content el v s = (if dom s el = None then s else s\<lparr>dom := (dom s)(el \<mapsto> v)\<rparr>)"

text \<open>\<open>ChartManager.updateChart\<close>\<close>

definition updateChart :: "string \<Rightarrow> chart_data \<Rightarrow> app \<Rightarrow> app" where
  "updateChart c newData s =
     (if charts s c = None then s else s\<lparr>charts := (charts s)(c \<mapsto> newData)\<rparr>)"

text \<open>\<open>Math.round\<close>\<close>

definition js_round :: "rat \<Rightarrow> int" where
  "js_round x = \<lfloor>x + 1 / 2\<rfloor>"

subsection \<open>src/script.js: the handlers of VotingAnalyticsApp\<close>

definition updateVotes :: "election_data \<Rightarrow> app \<Rightarrow> app" where
  "updateVotes election s =
     (let s1 = s\<lparr>liveVoteCount :=
                  (case current_turnout election of
                     Some n \<Rightarrow> if n \<noteq> 0 then n else liveVoteCount s
                   | None \<Rightarrow> liveVoteCount s)\<rparr>
      in set_content ''liveVoteCount'' (LocaleNumber (liveVoteCount s1)) s1)"

definition updateAIInsights :: "insight list \<Rightarrow> app \<Rightarrow> app" where
  "updateAIInsights insights s =
     (if insights = [] then s
      else set_content ''other-insights-content'' (Cards insights)
             (set_content ''analysis-summary-text'' (Cards (take 3 insights)) s))"

text \<open>The four texts that \<open>updateAnalytics\<close> writes.\<close>

definition total_votes_text :: "analytics \<Rightarrow> content" where
  "total_votes_text a =
     (case analytics_candidates a of
        Some cs \<Rightarrow> LocaleNumber (sum_list (map votes cs))
      | None \<Rightarrow> Text ''0'')"

definition total_insights_text :: "analytics \<Rightarrow> content" where
  "total_insights_text a =
     (case analytics_ai_insights a of
        Some is \<Rightarrow> Number (int (length is))
      | None \<Rightarrow> Text ''0'')"

definition avg_confidence_text :: "analytics \<Rightarrow> content" where
  "avg_confidence_text a =
     (case analytics_ai_predictions a of
        Some p \<Rightarrow>
          (case predictions_confidence p of
             Some c \<Rightarrow> if c \<noteq> 0 then Percent (js_round (c * 100)) else Text ''N/A''
           | None \<Rightarrow> Text ''N/A'')
      | None \<Rightarrow> Text ''N/A'')"

fun importance_of :: "insight \<Rightarrow> int option" where
  "importance_of (InsightText t) = None"
| "importance_of (Insight t d c i) = i"

definition high_importance_text :: "analytics \<Rightarrow> content" where
  "high_importance_text a =
     (case analytics_ai_insights a of
        Some is \<Rightarrow>
          (case List.map_filter importance_of is of
             [] \<Rightarrow> Text ''N/A''
           | n # ns \<Rightarrow> Number (fold max ns n))
      | None \<Rightarrow> Text ''N/A'')"

definition updateAnalytics :: "analytics option \<Rightarrow> app \<Rightarrow> app" where
  "updateAnalytics analytics s =
     (case analytics of
        None \<Rightarrow> s
      | Some a \<Rightarrow>
          set_content ''high-importance'' (high_importance_text a)
            (set_content ''avg-confidence'' (avg_confidence_text a)
              (set_content ''total-insights'' (total_insights_text a)
                (set_content ''total-votes'' (total_votes_text a) s))))"

definition counts_of :: "counts option option \<Rightarrow> counts" where
  "counts_of breakdown = (case breakdown of Some (Some c) \<Rightarrow> c | _ \<Rightarrow> [])"

definition updateDemographicChartsData :: "demographics option \<Rightarrow> app \<Rightarrow> app" where
  "updateDemographicChartsData demographics s =
     (case demographics of
        None \<Rightarrow> s
      | Some d \<Rightarrow>
          updateChart ''locationParticipationChart'' (Counts (counts_of (locations d)))
            (updateChart ''genderVotingTrendsChart'' (Counts (counts_of (gender d)))
              (updateChart ''ageGroupDistributionChart'' (Counts (counts_of (age_groups d))) s)))"

text \<open>
  \<open>handleVotingUpdate\<close>. Before the application is initialized the update goes to
  \<open>handleInitialData\<close> and nothing else is done; that handler builds the charts and the
  dashboard and is a parameter here.
\<close>

definition handleVotingUpdate :: "(voting_update \<Rightarrow> app \<Rightarrow> app) \<Rightarrow> voting_update \<Rightarrow> app \<Rightarrow> app" where
  "handleVotingUpdate handleInitialData data s =
     (if \<not> initialized s then handleInitialData data s
      else
        let s1 = (case update_election_data data of Some e \<Rightarrow> updateVotes e s | None \<Rightarrow> s);
            s2 = (case update_ai_insights data of Some is \<Rightarrow> updateAIInsights is s1 | None \<Rightarrow> s1)
        in (case update_analytics data of
              Some a \<Rightarrow>
                (let s3 = updateAnalytics (Some a) s2
                 in (case analytics_demographics a of
                       Some d \<Rightarrow> updateDemographicChartsData (Some d) s3
                     | None \<Rightarrow> s3))
            | None \<Rightarrow> s2))"

text \<open>
  \<open>handlePredictionUpdate\<close>. \<open>data.predictions[0].probability.toFixed(1)\<close> throws a
  \<open>TypeError\<close> when the first prediction has no probability; it is evaluated only when the
  page has the element \<open>.prediction-text\<close>, and before anything is written.
\<close>

datatype js_error = TypeError

definition handlePredictionUpdate :: "prediction_update option \<Rightarrow> app \<Rightarrow> js_error + app" where
  "handlePredictionUpdate data s =
     (case data of
        None \<Rightarrow> Inr s
      | Some d \<Rightarrow>
          (case predictions d of
             None \<Rightarrow> Inr s
           | Some [] \<Rightarrow> Inr s
           | Some (p # ps) \<Rightarrow>
               if dom s ''.prediction-text'' \<noteq> None \<and> probability p = None then Inl TypeError
               else
                 let s1 = (case probability p of
                             Some pr \<Rightarrow>
                               set_content ''.prediction-text''
                                 (PredictionText (leading_candidate d) pr) s
                           | None \<Rightarrow> s);
                     s2 = (if dom s1 ''confidenceMeter'' \<noteq> None \<and> dom s1 ''confidenceText'' \<noteq> None
                           then set_content ''confidenceText'' (ConfidenceText (update_confidence d))
                                  (set_content ''confidenceMeter''
                                     (ConfidenceText (update_confidence d)) s1)
                           else s1)
                 in Inr (updateChart ''predictionChart''
                           (Probabilities (map (\<lambda>q. (prediction_name q, probability q)) (p # ps)))
                           s2)))"

section \<open>Polling in src/script.js\<close>

text \<open>\<open>APIService.request\<close>: one \<open>fetch\<close>; an error is logged with \<open>console.error\<close> (the line
  also names the URL, left out here) and thrown again. The result: how the promise settles and
  the lines logged.\<close>

definition request :: "'a backend \<Rightarrow> 'a settled \<times> string list" where
  "request fetch =
     (case fetch 0 of
        Inr v \<Rightarrow> (Fulfilled (Some v), [])
      | Inl err \<Rightarrow> (Rejected err, [''Failed fetch: '' @ err]))"

text \<open>
  One round of the polling timer of \<open>fallback\<close>: the values of the fulfilled pulls go to
  \<open>app.handleVotingUpdate\<close> and \<open>app.handlePredictionUpdate\<close>. The application has no method
  \<open>handleBlockchainUpdate\<close>, so the call for a fulfilled pull of the transactions throws.
  Whatever the callback throws is caught and logged ("Fallback polling error"), and the rest of
  the callback is skipped. The result: the display state and the lines logged.
\<close>

definition poll ::
  "(voting_update \<Rightarrow> app \<Rightarrow> app) \<Rightarrow> voting_update backend \<Rightarrow> prediction_update option backend \<Rightarrow>
   't backend \<Rightarrow> app \<Rightarrow> app \<times> string list" where
  "poll handleInitialData analytics_pull predictions_pull transactions_pull s =
     (case (request analytics_pull, request predictions_pull, request transactions_pull) of
        ((ra, la), (rp, lp), (rt, lt)) \<Rightarrow>
          (case (case ra of
                   Rejected e \<Rightarrow> Inr s
                 | Fulfilled None \<Rightarrow> Inl TypeError
                 | Fulfilled (Some v) \<Rightarrow> Inr (handleVotingUpdate handleInitialData v s)) of
             Inl err \<Rightarrow> (s, la @ lp @ lt @ [''Fallback polling error''])
           | Inr s1 \<Rightarrow>
               (case (case rp of
                        Rejected e \<Rightarrow> Inr s1
                      | Fulfilled None \<Rightarrow> handlePredictionUpdate None s1
                      | Fulfilled (Some v) \<Rightarrow> handlePredictionUpdate v s1) of
                  Inl err \<Rightarrow> (s1, la @ lp @ lt @ [''Fallback polling error''])
                | Inr s2 \<Rightarrow>
                    (case rt of
                       Rejected e \<Rightarrow> (s2, la @ lp @ lt)
                     | Fulfilled v \<Rightarrow> (s2, la @ lp @ lt @ [''Fallback polling error''])))))"

section \<open>Properties of the live update channel\<close>

subsection \<open>Unfolding and field lemmas\<close>

lemmas page_defs = updateStatus_def setTimeout_connect_def setInterval_poll_def io_def emit_def
  toast_def resolved_def
lemmas ws_defs = fallback_def connect_def handleReconnect_def on_connect_def on_disconnect_def
  on_connect_error_def
lemmas wsy_defs = startPollingFallback_def handleConnectionError_def connect_yatish_def
  on_connect_yatish_def

lemma failures_unfold:
  "failures 1 = [ConnectError, Timer True]"
  "failures 3 = [ConnectError, Timer True, ConnectError, Timer True, ConnectError, Timer True]"
  "failures 5 = [ConnectError, Timer True, ConnectError, Timer True, ConnectError, Timer True,
     ConnectError, Timer True, ConnectError, Timer True]"
  "failures 6 = ConnectError # Timer True # failures 5"
  "failures 7 = ConnectError # Timer True # failures 6"
  by (simp_all add: eval_nat_numeral)

lemma run_append: "run f (es @ es') s = run f es' (run f es s)"
  by (induction es arbitrary: s) simp_all

lemma run_snoc: "run f (es @ [e]) s = f e (run f es s)"
  by (simp add: run_append)

text \<open>What \<open>handleConnectionError\<close> (yatish) does to each field.\<close>

lemma hce_counter: "reconnectAttempts (handleConnectionError s) = Suc (reconnectAttempts s)"
  by (simp add: wsy_defs page_defs Let_def)

lemma hce_maxDelay: "maxDelay (handleConnectionError s) = maxDelay s"
  by (simp add: wsy_defs page_defs Let_def)

lemma hce_scheduled: "scheduled (handleConnectionError s) =
    scheduled s @ [min (maxDelay s) (2 ^ Suc (reconnectAttempts s) * 1000)]"
  by (simp add: wsy_defs page_defs Let_def)

lemma hce_timeouts: "timeouts (handleConnectionError s) =
    timeouts s @ [min (maxDelay s) (2 ^ Suc (reconnectAttempts s) * 1000)]"
  by (simp add: wsy_defs page_defs Let_def)

lemma hce_intervals: "intervals (handleConnectionError s) =
    (if 6 \<le> reconnectAttempts s then intervals s @ [10000] else intervals s)"
  by (simp add: wsy_defs page_defs Let_def)

lemma hce_inflight: "inflight (handleConnectionError s) = inflight s"
  by (simp add: wsy_defs page_defs Let_def)

lemma hce_opened: "opened (handleConnectionError s) = opened s"
  by (simp add: wsy_defs page_defs Let_def)

lemmas hce_simps = hce_counter hce_maxDelay hce_scheduled hce_timeouts hce_intervals
  hce_inflight hce_opened

text \<open>What \<open>handleReconnect\<close> (script.js) does to each field.\<close>

lemma hr_retries: "retries (handleReconnect s) =
    (if retries s < maxRetries s then Suc (retries s) else retries s)"
  by (simp add: ws_defs page_defs Let_def)

lemma hr_maxRetries: "maxRetries (handleReconnect s) = maxRetries s"
  by (simp add: ws_defs page_defs Let_def)

lemma hr_scheduled: "scheduled (handleReconnect s) =
    (if retries s < maxRetries s then scheduled s @ [3000 * Suc (retries s)] else scheduled s)"
  by (simp add: ws_defs page_defs Let_def)

lemma hr_timeouts: "timeouts (handleReconnect s) =
    (if retries s < maxRetries s then timeouts s @ [3000 * Suc (retries s)] else timeouts s)"
  by (simp add: ws_defs page_defs Let_def)

lemma hr_intervals: "intervals (handleReconnect s) =
    (if retries s < maxRetries s then intervals s else intervals s @ [10000])"
  by (simp add: ws_defs page_defs Let_def)

lemma hr_inflight: "inflight (handleReconnect s) = inflight s"
  by (simp add: ws_defs page_defs Let_def)

lemma hr_opened: "opened (handleReconnect s) = opened s"
  by (simp add: ws_defs page_defs Let_def)

lemmas hr_simps = hr_retries hr_maxRetries hr_scheduled hr_timeouts hr_intervals
  hr_inflight hr_opened

text \<open>Without a success among the events, the delays set so far stay sorted and below the
  delay of the current counter.\<close>

lemma fire_yatish_delays:
  assumes "e \<noteq> Connect"
    and "sorted (scheduled s)"
    and "\<forall>d\<in>set (scheduled s). d \<le> min (maxDelay s) (2 ^ reconnectAttempts s * 1000)"
  shows "sorted (scheduled (fire_yatish e s)) \<and>
         (\<forall>d\<in>set (scheduled (fire_yatish e s)).
            d \<le> min (maxDelay (fire_yatish e s)) (2 ^ reconnectAttempts (fire_yatish e s) * 1000)) \<and>
         maxDelay (fire_yatish e s) = maxDelay s"
proof -
  have step: "sorted (scheduled (handleConnectionError t)) \<and>
         (\<forall>d\<in>set (scheduled (handleConnectionError t)).
            d \<le> min (maxDelay t) (2 ^ Suc (reconnectAttempts t) * 1000))"
    if "sorted (scheduled t)"
      and "\<forall>d\<in>set (scheduled t). d \<le> min (maxDelay t) (2 ^ reconnectAttempts t * 1000)"
    for t
    using that by (fastforce simp: hce_scheduled sorted_append)
  show ?thesis
  proof (cases e)
    case Connect
    with assms show ?thesis by simp
  next
    case Disconnect
    with assms show ?thesis by (simp add: page_defs)
  next
    case ConnectError
    have "scheduled (resolved s) = scheduled s" "maxDelay (resolved s) = maxDelay s"
      "reconnectAttempts (resolved s) = reconnectAttempts s"
      by (simp_all add: page_defs)
    with step [of "resolved s"] assms ConnectError show ?thesis
      by (simp add: hce_counter hce_maxDelay)
  next
    case (Timer ok)
    show ?thesis
    proof (cases "timeouts s")
      case Nil
      with Timer assms show ?thesis by simp
    next
      case (Cons d ds)
      let ?t = "s\<lparr>timeouts := ds\<rparr>"
      have eqs: "scheduled ?t = scheduled s" "maxDelay ?t = maxDelay s"
        "reconnectAttempts ?t = reconnectAttempts s"
        by simp_all
      show ?thesis
      proof (cases ok)
        case True
        with Timer Cons assms show ?thesis by (simp add: connect_yatish_def io_def)
      next
        case False
        with step [of ?t] assms Timer Cons eqs show ?thesis
          by (simp add: connect_yatish_def hce_counter hce_maxDelay)
      qed
    qed
  qed
qed

lemma run_yatish_delays:
  "Connect \<notin> set es \<Longrightarrow> sorted (scheduled s) \<Longrightarrow>
   \<forall>d\<in>set (scheduled s). d \<le> min (maxDelay s) (2 ^ reconnectAttempts s * 1000) \<Longrightarrow>
   sorted (scheduled (run fire_yatish es s)) \<and>
   (\<forall>d\<in>set (scheduled (run fire_yatish es s)). d \<le> maxDelay s)"
proof (induction es arbitrary: s)
  case Nil
  then show ?case by simp
next
  case (Cons e es)
  from Cons.prems have ne: "e \<noteq> Connect" and rest: "Connect \<notin> set es" by auto
  from fire_yatish_delays [OF ne Cons.prems(2) Cons.prems(3)]
  have inv: "sorted (scheduled (fire_yatish e s))"
    "\<forall>d\<in>set (scheduled (fire_yatish e s)).
        d \<le> min (maxDelay (fire_yatish e s)) (2 ^ reconnectAttempts (fire_yatish e s) * 1000)"
    and md: "maxDelay (fire_yatish e s) = maxDelay s"
    by blast+
  from Cons.IH [OF rest inv] md show ?case by simp
qed

lemma fire_delays:
  assumes "e \<noteq> Connect"
    and "sorted (scheduled s)"
    and "\<forall>d\<in>set (scheduled s). d \<le> 3000 * retries s"
    and "retries s \<le> maxRetries s"
  shows "sorted (scheduled (fire e s)) \<and>
         (\<forall>d\<in>set (scheduled (fire e s)). d \<le> 3000 * retries (fire e s)) \<and>
         retries (fire e s) \<le> maxRetries (fire e s) \<and>
         maxRetries (fire e s) = maxRetries s"
proof (cases e)
  case Connect
  with assms show ?thesis by simp
next
  case Disconnect
  with assms show ?thesis by (simp add: page_defs ws_defs)
next
  case ConnectError
  have eqs: "scheduled (resolved s) = scheduled s" "maxRetries (resolved s) = maxRetries s"
    "retries (resolved s) = retries s"
    by (simp_all add: page_defs)
  with assms ConnectError show ?thesis
    by (fastforce simp: on_connect_error_def hr_simps sorted_append)
next
  case (Timer ok)
  with assms show ?thesis
    by (cases "timeouts s"; cases ok) (simp_all add: connect_def fallback_def page_defs)
qed

lemma run_delays:
  "Connect \<notin> set es \<Longrightarrow> sorted (scheduled s) \<Longrightarrow>
   \<forall>d\<in>set (scheduled s). d \<le> 3000 * retries s \<Longrightarrow> retries s \<le> maxRetries s \<Longrightarrow>
   sorted (scheduled (run fire es s)) \<and>
   (\<forall>d\<in>set (scheduled (run fire es s)). d \<le> 3000 * maxRetries s)"
proof (induction es arbitrary: s)
  case Nil
  then show ?case by fastforce
next
  case (Cons e es)
  from Cons.prems have ne: "e \<noteq> Connect" and rest: "Connect \<notin> set es" by auto
  from fire_delays [OF ne Cons.prems(2) Cons.prems(3) Cons.prems(4)]
  have inv: "sorted (scheduled (fire e s))"
    "\<forall>d\<in>set (scheduled (fire e s)). d \<le> 3000 * retries (fire e s)"
    "retries (fire e s) \<le> maxRetries (fire e s)"
    and md: "maxRetries (fire e s) = maxRetries s"
    by blast+
  from Cons.IH [OF rest inv] md show ?case by simp
qed

lemmas start_defs = started_def new_WebSocketManager_def started_yatish_def
  new_WebSocketManager_yatish_def

lemma failures_no_Connect: "Connect \<notin> set (failures n)"
  by (induction n) simp_all

subsection \<open>Invariants of the event loop\<close>

lemma fire_one_pending:
  assumes "enabled e s" and "length (timeouts s) + inflight s \<le> 1"
  shows "length (timeouts (fire e s)) + inflight (fire e s) \<le> 1"
proof (cases e)
  case Connect
  with assms show ?thesis by (simp add: enabled_def ws_defs page_defs)
next
  case Disconnect
  with assms show ?thesis by (simp add: ws_defs page_defs)
next
  case ConnectError
  with assms show ?thesis
    by (cases "timeouts s") (simp_all add: enabled_def on_connect_error_def hr_simps resolved_def)
next
  case (Timer ok)
  with assms show ?thesis
    by (cases "timeouts s"; cases ok) (simp_all add: enabled_def connect_def fallback_def page_defs)
qed

lemma fire_yatish_one_pending:
  assumes "enabled e s" and "length (timeouts s) + inflight s \<le> 1"
  shows "length (timeouts (fire_yatish e s)) + inflight (fire_yatish e s) \<le> 1"
proof (cases e)
  case Connect
  with assms show ?thesis by (simp add: enabled_def wsy_defs page_defs)
next
  case Disconnect
  with assms show ?thesis by (simp add: page_defs)
next
  case ConnectError
  with assms show ?thesis
    by (cases "timeouts s") (simp_all add: enabled_def hce_simps resolved_def)
next
  case (Timer ok)
  with assms show ?thesis
    by (cases "timeouts s"; cases ok) (simp_all add: enabled_def connect_yatish_def hce_simps io_def)
qed

lemma orderly_invariant:
  assumes step: "\<And>e s. enabled e s \<Longrightarrow> length (timeouts s) + inflight s \<le> 1 \<Longrightarrow>
                   length (timeouts (f e s)) + inflight (f e s) \<le> 1"
  shows "orderly f es s \<Longrightarrow> length (timeouts s) + inflight s \<le> 1 \<Longrightarrow>
         length (timeouts (run f es s)) + inflight (run f es s) \<le> 1"
proof (induction es arbitrary: s)
  case Nil
  then show ?case by simp
next
  case (Cons e es)
  from Cons.prems have en: "enabled e s" and rest: "orderly f es (f e s)" by simp_all
  from Cons.IH [OF rest step [OF en Cons.prems(2)]] show ?case by simp
qed

lemma fire_after_bound:
  assumes "e \<noteq> Connect" and "maxRetries s \<le> retries s" and "timeouts s = []"
  shows "opened (fire e s) = opened s \<and> scheduled (fire e s) = scheduled s \<and>
         timeouts (fire e s) = [] \<and> maxRetries (fire e s) \<le> retries (fire e s)"
proof (cases e)
  case Connect
  with assms show ?thesis by simp
next
  case Disconnect
  with assms show ?thesis by (simp add: ws_defs page_defs)
next
  case ConnectError
  with assms show ?thesis by (simp add: on_connect_error_def hr_simps resolved_def)
next
  case (Timer ok)
  with assms show ?thesis by simp
qed

lemma run_after_bound:
  "Connect \<notin> set es \<Longrightarrow> maxRetries s \<le> retries s \<Longrightarrow> timeouts s = [] \<Longrightarrow>
   opened (run fire es s) = opened s \<and> scheduled (run fire es s) = scheduled s \<and>
   timeouts (run fire es s) = []"
proof (induction es arbitrary: s)
  case Nil
  then show ?case by simp
next
  case (Cons e es)
  from Cons.prems have ne: "e \<noteq> Connect" and rest: "Connect \<notin> set es" by auto
  from fire_after_bound [OF ne Cons.prems(2) Cons.prems(3)] Cons.IH [OF rest, of "fire e s"]
  show ?case by simp
qed

lemma hcp_bound:
  "maxRetries s \<le> retries s \<Longrightarrow>
   scheduled (handleConnectionError_part000 s) = scheduled s \<and>
   timeouts (handleConnectionError_part000 s) = timeouts s \<and>
   intervals (handleConnectionError_part000 s) = intervals s @ [10000]"
  by (simp add: handleConnectionError_part000_def page_defs Let_def)

lemma failures_yatish:
  "timeouts s = [] \<Longrightarrow>
   timeouts (run fire_yatish (failures k) s) = [] \<and>
   reconnectAttempts (run fire_yatish (failures k) s) = reconnectAttempts s + k \<and>
   maxDelay (run fire_yatish (failures k) s) = maxDelay s \<and>
   scheduled (run fire_yatish (failures k) s) =
     scheduled s @ map (\<lambda>i. min (maxDelay s) (2 ^ (reconnectAttempts s + i) * 1000)) [1..<Suc k]"
proof (induction k arbitrary: s)
  case 0
  then show ?case by simp
next
  case (Suc k)
  let ?t = "fire_yatish (Timer True) (fire_yatish ConnectError s)"
  from Suc.prems have t: "timeouts ?t = []" "reconnectAttempts ?t = Suc (reconnectAttempts s)"
    "maxDelay ?t = maxDelay s"
    "scheduled ?t = scheduled s @ [min (maxDelay s) (2 ^ Suc (reconnectAttempts s) * 1000)]"
    by (simp_all add: hce_simps resolved_def connect_yatish_def io_def)
  have "map (\<lambda>i. min (maxDelay s) (2 ^ (reconnectAttempts s + i) * 1000)) [1..<Suc (Suc k)] =
        min (maxDelay s) (2 ^ Suc (reconnectAttempts s) * 1000) #
        map (\<lambda>i. min (maxDelay s) (2 ^ (Suc (reconnectAttempts s) + i) * 1000)) [1..<Suc k]"
    by (simp add: upt_conv_Cons map_Suc_upt [symmetric] del: upt_Suc)
  with Suc.IH [OF t(1)] t show ?case by simp
qed

subsection \<open>C1: the delays of the first five failures, and the failure that starts polling\<close>

text \<open>
  C1, as stated, fails on both managers. In src/yatish/script.js the 6th consecutive failure
  starts no polling timer (the test is \<open>reconnectAttempts > 6\<close>) and sets one more reconnect
  timeout of 30000 ms; in src/script.js, whose 6th failure does start polling, the first delay
  is 3000 ms (\<open>3000 * retries\<close>), not 2000 ms.
\<close>

theorem C1_counterexample:
  "intervals (run fire_yatish (failures 6) started_yatish) = [] \<and>
   scheduled (run fire_yatish (failures 6) started_yatish) =
     [2000, 4000, 8000, 16000, 30000, 30000] \<and>
   scheduled (run fire (failures 1) started) = [3000]"
  by (simp add: failures_unfold page_defs wsy_defs ws_defs start_defs Let_def)

text \<open>
  C1, amended. In src/yatish/script.js (factor 1000 ms, \<open>maxDelay\<close> 30000 ms) the delay set
  after the \<open>k\<close>-th consecutive failure is \<open>min 30000 (2 ^ k * 1000)\<close>: 2000, 4000, 8000,
  16000, 30000 ms for \<open>k = 1..5\<close>; the 6th failure starts no polling, the 7th does. In
  src/script.js (bound 5) the delays are 3000, 6000, 9000, 12000, 15000 ms, the 5th failure
  starts no polling and the 6th does.
\<close>

theorem C1_backoff_delays:
  "scheduled (run fire_yatish (failures k) started_yatish) =
     map (\<lambda>i. min 30000 (2 ^ i * 1000)) [1..<Suc k] \<and>
   scheduled (run fire_yatish (failures 5) started_yatish) = [2000, 4000, 8000, 16000, 30000] \<and>
   intervals (run fire_yatish (failures 6) started_yatish) = [] \<and>
   intervals (run fire_yatish (failures 7) started_yatish) = [10000] \<and>
   scheduled (run fire (failures 5) started) = [3000, 6000, 9000, 12000, 15000] \<and>
   intervals (run fire (failures 5) started) = [] \<and>
   intervals (run fire (failures 6) started) = [10000]"
proof -
  have fresh: "timeouts started_yatish = []" "scheduled started_yatish = []"
    "reconnectAttempts started_yatish = 0" "maxDelay started_yatish = 30000"
    by (simp_all add: start_defs connect_yatish_def io_def)
  from failures_yatish [OF fresh(1), of k] fresh
  have "scheduled (run fire_yatish (failures k) started_yatish) =
     map (\<lambda>i. min 30000 (2 ^ i * 1000)) [1..<Suc k]"
    by simp
  moreover have
    "scheduled (run fire_yatish (failures 5) started_yatish) = [2000, 4000, 8000, 16000, 30000]"
    "intervals (run fire_yatish (failures 6) started_yatish) = []"
    "intervals (run fire_yatish (failures 7) started_yatish) = [10000]"
    by (simp_all add: failures_unfold page_defs wsy_defs start_defs Let_def)
  moreover have
    "scheduled (run fire (failures 5) started) = [3000, 6000, 9000, 12000, 15000]"
    "intervals (run fire (failures 5) started) = []"
    "intervals (run fire (failures 6) started) = [10000]"
    by (simp_all add: failures_unfold page_defs ws_defs start_defs Let_def)
  ultimately show ?thesis by simp
qed

text \<open>C1, at three failures.\<close>

theorem C1_backoff_delays_witness:
  "scheduled (run fire_yatish (failures 3) started_yatish) = [2000, 4000, 8000]"
  using C1_backoff_delays [of 3] by (simp add: upt_conv_Cons)

subsection \<open>C2: after the bound\<close>

text \<open>
  C2, as stated, fails in src/yatish/script.js: the 7th consecutive failure starts the polling
  timer and, like every failure, sets a reconnect timeout (30000 ms); when it fires, an 8th
  socket is opened. In src/script.js the 6th failure starts polling and sets no reconnect, but
  nothing records that polling has started: when a socket connects after all (the counter
  goes back to 0) and later reports \<open>connect_error\<close>, a reconnect is set again and a 7th
  socket is opened.
\<close>

theorem C2_counterexample:
  "intervals (fire_yatish ConnectError (run fire_yatish (failures 6) started_yatish)) = [10000] \<and>
   timeouts (fire_yatish ConnectError (run fire_yatish (failures 6) started_yatish)) = [30000] \<and>
   opened (fire_yatish ConnectError (run fire_yatish (failures 6) started_yatish)) = 7 \<and>
   opened (fire_yatish (Timer True)
     (fire_yatish ConnectError (run fire_yatish (failures 6) started_yatish))) = 8 \<and>
   intervals (run fire (failures 6) started) = [10000] \<and>
   opened (run fire (failures 6) started) = 6 \<and>
   opened (run fire [Connect, Disconnect, ConnectError, Timer True]
     (run fire (failures 6) started)) = 7"
  by (simp add: failures_unfold page_defs wsy_defs ws_defs start_defs Let_def)

text \<open>
  C2, amended. In the managers with a bound (src/script.js, src/unnamed/part_000), once the
  counter has reached the bound a further failure starts a polling timer and sets no reconnect
  timeout; with no timeout pending and as long as no \<open>connect\<close> event resets the counter, no
  socket is opened and no reconnect is set again, whatever else happens. The manager of
  src/yatish/script.js sets a reconnect timeout at every failure.
\<close>

theorem C2_bounded_manager_stops_reconnecting:
  assumes "maxRetries s \<le> retries s" and "timeouts s = []" and "Connect \<notin> set es"
  shows "intervals (fire ConnectError s) = intervals s @ [10000] \<and>
         opened (run fire es s) = opened s \<and>
         scheduled (run fire es s) = scheduled s \<and>
         timeouts (run fire es s) = [] \<and>
         scheduled (handleConnectionError_part000 s) = scheduled s \<and>
         intervals (handleConnectionError_part000 s) = intervals s @ [10000] \<and>
         timeouts (handleConnectionError t) =
           timeouts t @ [min (maxDelay t) (2 ^ Suc (reconnectAttempts t) * 1000)]"
proof -
  from assms(1) have "intervals (fire ConnectError s) = intervals s @ [10000]"
    by (simp add: on_connect_error_def hr_intervals resolved_def)
  with run_after_bound [OF assms(3) assms(1) assms(2)] hcp_bound [OF assms(1)] hce_timeouts [of t]
  show ?thesis by simp
qed

text \<open>C2, amended, at the manager of src/script.js after five failures: the 6th failure and
  what follows open no socket.\<close>

theorem C2_bounded_manager_stops_reconnecting_witness:
  "opened (run fire (failures 5) started) = 6 \<and>
   opened (run fire [ConnectError, Timer True, Disconnect, ConnectError]
             (run fire (failures 5) started)) = 6 \<and>
   intervals (fire ConnectError (run fire (failures 5) started)) = [10000] \<and>
   timeouts (handleConnectionError started_yatish) = [2000]"
proof -
  let ?s = "run fire (failures 5) started"
  have s: "maxRetries ?s \<le> retries ?s" "timeouts ?s = []" "opened ?s = 6" "intervals ?s = []"
    by (simp_all add: failures_unfold page_defs ws_defs start_defs Let_def)
  have es: "Connect \<notin> set [ConnectError, Timer True, Disconnect, ConnectError]"
    by simp
  have t: "timeouts started_yatish = []" "maxDelay started_yatish = 30000"
    "reconnectAttempts started_yatish = 0"
    by (simp_all add: start_defs connect_yatish_def io_def)
  from C2_bounded_manager_stops_reconnecting [OF s(1) s(2) es, of started_yatish] s t
  show ?thesis by simp
qed

subsection \<open>C3: attempts in flight\<close>

text \<open>
  C3, as stated, fails: the handlers stay on the socket and nothing in either manager remembers
  that a reconnect is pending, so a second \<open>connect_error\<close> of the same socket sets a second
  timeout while the first is pending, and when both have fired two sockets are in flight.
\<close>

theorem C3_counterexample:
  "timeouts (run fire [ConnectError, ConnectError] started) = [3000, 6000] \<and>
   inflight (run fire [ConnectError, ConnectError, Timer True, Timer True] started) = 2 \<and>
   timeouts (run fire_yatish [ConnectError, ConnectError] started_yatish) = [2000, 4000] \<and>
   inflight (run fire_yatish [ConnectError, ConnectError, Timer True, Timer True]
     started_yatish) = 2"
  by (simp add: page_defs wsy_defs ws_defs start_defs Let_def)

text \<open>
  C3, amended. When the transport reports one outcome per socket (\<open>orderly\<close>), the pending
  reconnect timeouts and the unresolved sockets are together at most one, at every point of
  every event sequence: a reconnect is pending only when no socket is in flight, and a socket
  is in flight only when no reconnect is pending.
\<close>

theorem C3_one_attempt_when_each_socket_reports_once:
  assumes "orderly fire es s" and "length (timeouts s) + inflight s \<le> 1"
    and "orderly fire_yatish es' t" and "length (timeouts t) + inflight t \<le> 1"
  shows "length (timeouts (run fire es s)) + inflight (run fire es s) \<le> 1 \<and>
         length (timeouts (run fire_yatish es' t)) + inflight (run fire_yatish es' t) \<le> 1"
  using orderly_invariant [of fire es s, OF fire_one_pending assms(1) assms(2)]
    orderly_invariant [of fire_yatish es' t, OF fire_yatish_one_pending assms(3) assms(4)]
  by simp

text \<open>C3, amended, on two orderly sequences from the started managers.\<close>

theorem C3_one_attempt_when_each_socket_reports_once_witness:
  "orderly fire [ConnectError, Timer True, ConnectError, Timer True, Connect, Disconnect] started \<and>
   length (timeouts started) + inflight started = 1 \<and>
   orderly fire_yatish (failures 7) started_yatish \<and>
   length (timeouts started_yatish) + inflight started_yatish = 1 \<and>
   length (timeouts (run fire
       [ConnectError, Timer True, ConnectError, Timer True, Connect, Disconnect] started)) +
     inflight (run fire
       [ConnectError, Timer True, ConnectError, Timer True, Connect, Disconnect] started) \<le> 1 \<and>
   length (timeouts (run fire_yatish (failures 7) started_yatish)) +
     inflight (run fire_yatish (failures 7) started_yatish) \<le> 1"
proof -
  have a: "orderly fire
      [ConnectError, Timer True, ConnectError, Timer True, Connect, Disconnect] started"
    by (simp add: enabled_def page_defs ws_defs start_defs Let_def)
  have b: "length (timeouts started) + inflight started = 1"
    by (simp add: page_defs ws_defs start_defs)
  have c: "orderly fire_yatish (failures 7) started_yatish"
    by (simp add: failures_unfold enabled_def page_defs wsy_defs start_defs Let_def)
  have d: "length (timeouts started_yatish) + inflight started_yatish = 1"
    by (simp add: page_defs wsy_defs start_defs)
  from b have b': "length (timeouts started) + inflight started \<le> 1" by simp
  from d have d': "length (timeouts started_yatish) + inflight started_yatish \<le> 1" by simp
  from C3_one_attempt_when_each_socket_reports_once [OF a b' c d'] a b c d
  show ?thesis by blast
qed

subsection \<open>C4: the delays of consecutive failures\<close>

text \<open>
  C4. Over any sequence of events without a success, from a manager that has set no timeout
  yet, the reconnect delays are non-decreasing in the order they are set and each is at most
  \<open>maxDelay\<close> (src/yatish/script.js), respectively at most \<open>3000 * maxRetries\<close>, which is 15000 ms
  for the bound 5 (src/script.js).
\<close>

theorem C4_delays_nondecreasing_capped:
  assumes "Connect \<notin> set es"
    and "scheduled s = []"
    and "scheduled t = []" and "retries t \<le> maxRetries t"
  shows "sorted (scheduled (run fire_yatish es s)) \<and>
         (\<forall>d\<in>set (scheduled (run fire_yatish es s)). d \<le> maxDelay s) \<and>
         sorted (scheduled (run fire es t)) \<and>
         (\<forall>d\<in>set (scheduled (run fire es t)). d \<le> 3000 * maxRetries t)"
  using run_yatish_delays [of es s] run_delays [of es t] assms by simp

text \<open>C4, at five consecutive failures of each started manager.\<close>

theorem C4_delays_nondecreasing_capped_witness:
  "scheduled (run fire_yatish (failures 5) started_yatish) = [2000, 4000, 8000, 16000, 30000] \<and>
   sorted (scheduled (run fire_yatish (failures 5) started_yatish)) \<and>
   list_all (\<lambda>d. d \<le> 30000) (scheduled (run fire_yatish (failures 5) started_yatish)) \<and>
   scheduled (run fire (failures 5) started) = [3000, 6000, 9000, 12000, 15000] \<and>
   sorted (scheduled (run fire (failures 5) started)) \<and>
   list_all (\<lambda>d. d \<le> 15000) (scheduled (run fire (failures 5) started))"
proof -
  have s: "scheduled started_yatish = []" "maxDelay started_yatish = 30000"
    by (simp_all add: start_defs connect_yatish_def io_def)
  have t: "scheduled started = []" "retries started \<le> maxRetries started"
    "maxRetries started = 5"
    by (simp_all add: start_defs connect_def io_def)
  have v: "scheduled (run fire_yatish (failures 5) started_yatish) =
      [2000, 4000, 8000, 16000, 30000]"
    "scheduled (run fire (failures 5) started) = [3000, 6000, 9000, 12000, 15000]"
    by (simp_all add: failures_unfold page_defs wsy_defs ws_defs start_defs Let_def)
  from C4_delays_nondecreasing_capped [OF failures_no_Connect s(1) t(1) t(2), of 5] s t v
  show ?thesis by (simp add: list_all_iff)
qed

subsection \<open>C5: the success callback\<close>

text \<open>
  C5. Whatever events came before, the \<open>connect\<close> handler leaves the attempt counter at 0, shows
  the status "connected" and emits the requests for the current data (\<open>request_live_data\<close>,
  \<open>request_3d_data\<close>, and in src/yatish/script.js \<open>request_blockchain_status\<close>).
\<close>

theorem C5_connect_resets_counter:
  "retries (run fire (es @ [Connect]) s) = 0 \<and>
   status (run fire (es @ [Connect]) s) = ''connected'' \<and>
   emitted (run fire (es @ [Connect]) s) =
     emitted (run fire es s) @ [''request_live_data'', ''request_3d_data''] \<and>
   reconnectAttempts (run fire_yatish (es' @ [Connect]) t) = 0 \<and>
   status (run fire_yatish (es' @ [Connect]) t) = ''connected'' \<and>
   emitted (run fire_yatish (es' @ [Connect]) t) =
     emitted (run fire_yatish es' t) @
       [''request_live_data'', ''request_3d_data'', ''request_blockchain_status'']"
  by (simp add: run_snoc page_defs on_connect_def on_connect_yatish_def)

text \<open>C5, when the connection succeeds after three failed attempts.\<close>

theorem C5_connect_resets_counter_witness:
  "retries (run fire (failures 3) started) = 3 \<and>
   retries (run fire (failures 3 @ [Connect]) started) = 0 \<and>
   emitted (run fire (failures 3 @ [Connect]) started) =
     [''request_live_data'', ''request_3d_data''] \<and>
   reconnectAttempts (run fire_yatish (failures 3) started_yatish) = 3 \<and>
   reconnectAttempts (run fire_yatish (failures 3 @ [Connect]) started_yatish) = 0"
proof -
  have a: "retries (run fire (failures 3) started) = 3"
    "emitted (run fire (failures 3) started) = []"
    by (simp_all add: failures_unfold page_defs ws_defs start_defs Let_def)
  have b: "reconnectAttempts (run fire_yatish (failures 3) started_yatish) = 3"
    by (simp add: failures_unfold page_defs wsy_defs start_defs Let_def)
  from C5_connect_resets_counter [of "failures 3" started "failures 3" started_yatish] a b
  show ?thesis by simp
qed

section \<open>Properties of polling\<close>

lemma upt_Suc_front: "a < n \<Longrightarrow> [Suc a..<Suc n] = Suc a # [Suc (Suc a)..<Suc n]"
  by (simp add: upt_conv_Cons del: upt_Suc)

lemma request_loop_succeeds:
  "a \<le> n \<Longrightarrow> n \<le> maxRetries_api api \<Longrightarrow> (\<forall>k. a \<le> k \<and> k < n \<longrightarrow> (\<exists>e. fetch k = Inl e)) \<Longrightarrow>
   fetch n = Inr v \<Longrightarrow>
   request_loop api fetch a ws =
     (Fulfilled (Some v),
      ws @ map (\<lambda>k. min (maxDelay_api api) (2 ^ k * 500)) [Suc a..<Suc n], [])"
proof (induction "n - a" arbitrary: a ws)
  case 0
  then have "a = n" by simp
  with 0 show ?case by (subst request_loop.simps) simp
next
  case (Suc d)
  then have lt: "a < n" and le: "a \<le> maxRetries_api api" by simp_all
  from Suc.prems lt obtain e where e: "fetch a = Inl e" by blast
  from Suc lt have d: "d = n - Suc a" by simp
  from Suc.prems lt have later: "\<forall>k. Suc a \<le> k \<and> k < n \<longrightarrow> (\<exists>e. fetch k = Inl e)" by simp
  from lt Suc.prems have nlt: "\<not> maxRetries_api api < Suc a" by simp
  from lt have sa: "Suc a \<le> n" by simp
  have "request_loop api fetch a ws =
        request_loop api fetch (Suc a) (ws @ [min (maxDelay_api api) (2 ^ Suc a * 500)])"
    using le e nlt by (subst request_loop.simps) simp
  also from Suc.hyps(1) [OF d sa Suc.prems(2) later Suc.prems(4)]
  have "\<dots> = (Fulfilled (Some v),
      (ws @ [min (maxDelay_api api) (2 ^ Suc a * 500)]) @
        map (\<lambda>k. min (maxDelay_api api) (2 ^ k * 500)) [Suc (Suc a)..<Suc n], [])" .
  also have "\<dots> = (Fulfilled (Some v),
      ws @ map (\<lambda>k. min (maxDelay_api api) (2 ^ k * 500)) [Suc a..<Suc n], [])"
    using upt_Suc_front [OF lt] by simp
  finally show ?case .
qed

lemma request_loop_exhausted:
  "a \<le> maxRetries_api api \<Longrightarrow>
   (\<forall>k. a \<le> k \<and> k < maxRetries_api api \<longrightarrow> (\<exists>e. fetch k = Inl e)) \<Longrightarrow>
   fetch (maxRetries_api api) = Inl err \<Longrightarrow>
   request_loop api fetch a ws =
     (Rejected err,
      ws @ map (\<lambda>k. min (maxDelay_api api) (2 ^ k * 500)) [Suc a..<Suc (maxRetries_api api)],
      [''API error: '' @ err])"
proof (induction "maxRetries_api api - a" arbitrary: a ws)
  case 0
  then have "a = maxRetries_api api" by simp
  with 0 show ?case by (subst request_loop.simps) simp
next
  case (Suc d)
  let ?n = "maxRetries_api api"
  from Suc have lt: "a < ?n" by simp
  from Suc.prems lt obtain e where e: "fetch a = Inl e" by blast
  from Suc lt have d: "d = ?n - Suc a" by simp
  from Suc.prems lt have later: "\<forall>k. Suc a \<le> k \<and> k < ?n \<longrightarrow> (\<exists>e. fetch k = Inl e)" by simp
  from lt have sa: "Suc a \<le> ?n" and nlt: "\<not> ?n < Suc a" by simp_all
  have "request_loop api fetch a ws =
        request_loop api fetch (Suc a) (ws @ [min (maxDelay_api api) (2 ^ Suc a * 500)])"
    using Suc.prems(1) e nlt by (subst request_loop.simps) simp
  also from Suc.hyps(1) [OF d sa later Suc.prems(3)]
  have "\<dots> = (Rejected err,
      (ws @ [min (maxDelay_api api) (2 ^ Suc a * 500)]) @
        map (\<lambda>k. min (maxDelay_api api) (2 ^ k * 500)) [Suc (Suc a)..<Suc ?n],
      [''API error: '' @ err])" .
  also have "\<dots> = (Rejected err,
      ws @ map (\<lambda>k. min (maxDelay_api api) (2 ^ k * 500)) [Suc a..<Suc ?n],
      [''API error: '' @ err])"
    using upt_Suc_front [OF lt] by simp
  finally show ?case .
qed

lemma request_yatish_succeeds:
  assumes "n \<le> maxRetries_api api" and "\<forall>k<n. \<exists>e. fetch k = Inl e" and "fetch n = Inr v"
  shows "request_yatish api fetch =
     (Fulfilled (Some v), map (\<lambda>k. min (maxDelay_api api) (2 ^ k * 500)) [1..<Suc n], [])"
  using request_loop_succeeds [of 0 n api fetch v "[]"] assms
  by (simp add: request_yatish_def)

lemma request_yatish_exhausted:
  assumes "\<forall>k<maxRetries_api api. \<exists>e. fetch k = Inl e" and "fetch (maxRetries_api api) = Inl err"
  shows "request_yatish api fetch =
     (Rejected err,
      map (\<lambda>k. min (maxDelay_api api) (2 ^ k * 500)) [1..<Suc (maxRetries_api api)],
      [''API error: '' @ err])"
  using request_loop_exhausted [of 0 api fetch err "[]"] assms
  by (simp add: request_yatish_def)

lemma request_yatish_bounded:
  "\<exists>n\<le>maxRetries_api api.
     fst (snd (request_yatish api fetch)) =
       map (\<lambda>k. min (maxDelay_api api) (2 ^ k * 500)) [1..<Suc n] \<and>
     (\<forall>k<n. \<exists>e. fetch k = Inl e) \<and>
     (case fetch n of
        Inr v \<Rightarrow> request_yatish api fetch =
          (Fulfilled (Some v), map (\<lambda>k. min (maxDelay_api api) (2 ^ k * 500)) [1..<Suc n], [])
      | Inl err \<Rightarrow> n = maxRetries_api api \<and> request_yatish api fetch =
          (Rejected err, map (\<lambda>k. min (maxDelay_api api) (2 ^ k * 500)) [1..<Suc n],
           [''API error: '' @ err]))"
proof (cases "\<exists>n\<le>maxRetries_api api. \<exists>v. fetch n = Inr v")
  case True
  define n where "n = (LEAST n. \<exists>v. fetch n = Inr v)"
  from True have ex: "\<exists>n. \<exists>v. fetch n = Inr v" by blast
  from LeastI_ex [OF ex] obtain v where v: "fetch n = Inr v" unfolding n_def by blast
  from True obtain m where m: "m \<le> maxRetries_api api" "\<exists>v. fetch m = Inr v" by blast
  from Least_le [of "\<lambda>n. \<exists>v. fetch n = Inr v" m] m have le: "n \<le> maxRetries_api api"
    unfolding n_def by simp
  have before: "\<forall>k<n. \<exists>e. fetch k = Inl e"
  proof (intro allI impI)
    fix k assume "k < n"
    from not_less_Least [of k "\<lambda>n. \<exists>v. fetch n = Inr v"] this
    have "\<not> (\<exists>v. fetch k = Inr v)" unfolding n_def by simp
    then show "\<exists>e. fetch k = Inl e" by (cases "fetch k") auto
  qed
  from request_yatish_succeeds [OF le before v] le before v show ?thesis
    by (intro exI [of _ n]) simp
next
  case False
  let ?n = "maxRetries_api api"
  from False have all: "\<forall>k\<le>?n. \<exists>e. fetch k = Inl e"
    by (metis sum.exhaust)
  then obtain err where err: "fetch ?n = Inl err" by blast
  from all have before: "\<forall>k<?n. \<exists>e. fetch k = Inl e" by simp
  from request_yatish_exhausted [OF before err] before err show ?thesis
    by (intro exI [of _ ?n]) simp
qed

lemma poll_yatish_rejected:
  "fst (request_yatish api ba) = Rejected e \<Longrightarrow>
   fst (poll_yatish hvu uns api ba bp bt st) =
     (case fst (request_yatish api bt) of Fulfilled (Some w) \<Rightarrow> uns w st | _ \<Rightarrow> st)"
proof -
  assume rej: "fst (request_yatish api ba) = Rejected e"
  obtain ra wa ta where a: "request_yatish api ba = (ra, wa, ta)"
    by (cases "request_yatish api ba") auto
  obtain rp wp tp where p: "request_yatish api bp = (rp, wp, tp)"
    by (cases "request_yatish api bp") auto
  obtain rt wt tt where t: "request_yatish api bt = (rt, wt, tt)"
    by (cases "request_yatish api bt") auto
  from rej a have "ra = Rejected e" by simp
  with a p t show ?thesis
    by (simp add: poll_yatish_def split: settled.splits option.splits)
qed

lemma poll_rejected:
  "ba 0 = Inl e1 \<Longrightarrow> bp 0 = Inl e2 \<Longrightarrow> bt 0 = Inl e3 \<Longrightarrow>
   poll h ba bp bt st =
     (st, [''Failed fetch: '' @ e1, ''Failed fetch: '' @ e2, ''Failed fetch: '' @ e3])"
  by (simp add: poll_def request_def)

subsection \<open>C8: pulls in polling mode\<close>

text \<open>
  C8, as stated, fails. In src/yatish/script.js a pull whose retries are exhausted is not
  silent: it shows the error toast "API error: ..." (and logs nothing). In src/script.js a pull
  is not retried at all: one failed \<open>fetch\<close> rejects it, even when the next would succeed.
\<close>

theorem C8_counterexample:
  "request_yatish new_APIService_yatish (\<lambda>k. Inl ''HTTP 500'' :: string + nat) =
     (Rejected ''HTTP 500'', [1000, 2000, 4000, 8000, 16000], [''API error: HTTP 500'']) \<and>
   request (\<lambda>k. if k = 0 then Inl ''HTTP 500'' else Inr (1::nat)) =
     (Rejected ''HTTP 500'', [''Failed fetch: HTTP 500''])"
proof -
  have "request_yatish new_APIService_yatish (\<lambda>k. Inl ''HTTP 500'' :: string + nat) =
     (Rejected ''HTTP 500'', map (\<lambda>k. min 30000 (2 ^ k * 500)) [1..<Suc 5], [''API error: HTTP 500''])"
    using request_loop_exhausted [of 0 new_APIService_yatish "\<lambda>k. Inl ''HTTP 500'' :: string + nat" "''HTTP 500''" "[]"]
    by (simp add: request_yatish_def new_APIService_yatish_def)
  moreover have "map (\<lambda>k. min 30000 (2 ^ k * 500)) [1..<Suc 5] = [1000, 2000, 4000, 8000, 16000::nat]"
    by (simp add: upt_conv_Cons)
  moreover have "request (\<lambda>k. if k = 0 then Inl ''HTTP 500'' else Inr (1::nat)) =
     (Rejected ''HTTP 500'', [''Failed fetch: HTTP 500''])"
    by (simp add: request_def)
  ultimately show ?thesis by simp
qed

text \<open>
  C8, amended. Both managers start the polling timer with a period of 10000 ms. In
  src/yatish/script.js each pull waits \<open>min maxDelay (2 ^ k * 500)\<close> ms before its \<open>k\<close>-th retry
  and makes at most \<open>maxRetries\<close> retries: it is fulfilled by the first \<open>fetch\<close> that succeeds,
  and when all \<open>maxRetries + 1\<close> calls fail it is rejected and shows one error toast. A poll
  applies no voting update for a rejected analytics pull. In src/script.js a pull is one
  \<open>fetch\<close>; a poll whose three pulls fail logs them and leaves the display as it was.
\<close>

theorem C8_polling_pulls:
  "intervals (startPollingFallback s) = intervals s @ [10000] \<and>
   intervals (fallback t) = intervals t @ [10000] \<and>
   (\<exists>n\<le>maxRetries_api api.
      fst (snd (request_yatish api fetch)) =
        map (\<lambda>k. min (maxDelay_api api) (2 ^ k * 500)) [1..<Suc n] \<and>
      (\<forall>k<n. \<exists>e. fetch k = Inl e) \<and>
      (case fetch n of
         Inr v \<Rightarrow> request_yatish api fetch =
           (Fulfilled (Some v), map (\<lambda>k. min (maxDelay_api api) (2 ^ k * 500)) [1..<Suc n], [])
       | Inl err \<Rightarrow> n = maxRetries_api api \<and> request_yatish api fetch =
           (Rejected err, map (\<lambda>k. min (maxDelay_api api) (2 ^ k * 500)) [1..<Suc n],
            [''API error: '' @ err]))) \<and>
   (fst (request_yatish api ba) = Rejected e \<longrightarrow>
      fst (poll_yatish hvu uns api ba bp bt st) =
        (case fst (request_yatish api bt) of
           Fulfilled (Some w) \<Rightarrow> uns w st | _ \<Rightarrow> st)) \<and>
   (qa 0 = Inl ea \<and> qp 0 = Inl ep \<and> qt 0 = Inl et \<longrightarrow>
      poll h qa qp qt st' =
        (st', [''Failed fetch: '' @ ea, ''Failed fetch: '' @ ep, ''Failed fetch: '' @ et]))"
proof -
  have "intervals (startPollingFallback s) = intervals s @ [10000]"
    "intervals (fallback t) = intervals t @ [10000]"
    by (simp_all add: startPollingFallback_def fallback_def setInterval_poll_def)
  with request_yatish_bounded [of api fetch]
    poll_yatish_rejected [of api ba e hvu uns bp bt st]
    poll_rejected [of qa ea qp ep qt et h st']
  show ?thesis by blast
qed

text \<open>C8, amended, on a backend that answers "HTTP 500" to every call: the poll of
  src/yatish/script.js leaves its display state (here a list of the updates applied) as it
  was, and the poll of src/script.js leaves the page as it was and logs the three failures.\<close>

theorem C8_polling_pulls_witness:
  "fst (request_yatish new_APIService_yatish (\<lambda>k. Inl ''HTTP 500'' :: string + nat)) =
     Rejected ''HTTP 500'' \<and>
   fst (poll_yatish (\<lambda>v st. v # st) (\<lambda>v st. v # st) new_APIService_yatish
          (\<lambda>k. Inl ''HTTP 500'') (\<lambda>k. Inl ''HTTP 500'') (\<lambda>k. Inl ''HTTP 500'') [0::nat]) = [0] \<and>
   poll (\<lambda>d s. s) (\<lambda>k. Inl ''HTTP 500'') (\<lambda>k. Inl ''HTTP 500'')
        (\<lambda>k. Inl ''HTTP 500'' :: string + nat)
        \<lparr>initialized = True, liveVoteCount = 7,
         dom = [''liveVoteCount'' \<mapsto> LocaleNumber 7], charts = Map.empty\<rparr> =
     (\<lparr>initialized = True, liveVoteCount = 7,
       dom = [''liveVoteCount'' \<mapsto> LocaleNumber 7], charts = Map.empty\<rparr>,
      [''Failed fetch: HTTP 500'', ''Failed fetch: HTTP 500'', ''Failed fetch: HTTP 500''])"
proof -
  let ?down = "\<lambda>k::nat. Inl ''HTTP 500'' :: string + nat"
  let ?s = "\<lparr>initialized = True, liveVoteCount = 7,
         dom = [''liveVoteCount'' \<mapsto> LocaleNumber 7], charts = Map.empty\<rparr>"
  have rej: "fst (request_yatish new_APIService_yatish ?down) = Rejected ''HTTP 500''"
    using request_yatish_exhausted [of new_APIService_yatish ?down "''HTTP 500''"] by simp
  from C8_polling_pulls [where api = new_APIService_yatish and ba = ?down and bp = ?down
      and bt = ?down and e = "''HTTP 500''" and hvu = "\<lambda>v st. v # st" and uns = "\<lambda>v st. v # st"
      and st = "[0]", THEN conjunct2, THEN conjunct2, THEN conjunct2, THEN conjunct1] rej
  have a: "fst (poll_yatish (\<lambda>v st. v # st) (\<lambda>v st. v # st) new_APIService_yatish
          ?down ?down ?down [0::nat]) = [0]"
    by simp
  from C8_polling_pulls [where qa = "\<lambda>k. Inl ''HTTP 500''" and qp = "\<lambda>k. Inl ''HTTP 500''"
      and qt = ?down and ea = "''HTTP 500''" and ep = "''HTTP 500''"
      and et = "''HTTP 500''" and h = "\<lambda>d s. s" and st' = ?s,
      THEN conjunct2, THEN conjunct2, THEN conjunct2, THEN conjunct2]
  have b: "poll (\<lambda>d s. s) (\<lambda>k. Inl ''HTTP 500'') (\<lambda>k. Inl ''HTTP 500'') ?down ?s =
     (?s, [''Failed fetch: HTTP 500'', ''Failed fetch: HTTP 500'', ''Failed fetch: HTTP 500''])"
    by simp
  from rej a b show ?thesis by (intro conjI)
qed

section \<open>Properties of the constituency search\<close>

lemma includes_str_sublist: "includes_str s t = sublist t s"
  by (induction s) (simp_all add: sublist_Cons_right)

lemma includes_str_iff: "includes_str s t \<longleftrightarrow> (\<exists>ps ss. s = ps @ t @ ss)"
  unfolding includes_str_sublist sublist_def ..

lemma search_short: "length (trim ws q) < 2 \<Longrightarrow> search lower ws cs q = None"
  by (simp add: search_def Let_def)

lemma matches_bounded:
  "length (take 10 (filter P cs)) \<le> 10 \<and> (\<forall>r\<in>set (take 10 (filter P cs)). r \<in> set cs \<and> P r)"
proof -
  have "set (take 10 (filter P cs)) \<subseteq> set (filter P cs)" by (rule set_take_subset)
  then show ?thesis by auto
qed

lemma search_long:
  assumes "2 \<le> length (trim ws q)"
  shows "\<exists>rs. search lower ws cs q = Some rs \<and> length rs \<le> 10 \<and>
           (\<forall>r\<in>set rs. r \<in> set cs \<and> (\<exists>ps ss. lower r = ps @ lower (trim ws q) @ ss))"
proof -
  let ?P = "\<lambda>c. includes_str (lower c) (lower (trim ws q))"
  let ?rs = "take 10 (filter ?P cs)"
  from assms have eq: "search lower ws cs q = Some ?rs"
    by (simp add: search_def Let_def)
  from matches_bounded [of ?P cs]
  have len: "length ?rs \<le> 10"
    and sub: "\<forall>r\<in>set ?rs. r \<in> set cs \<and> (\<exists>ps ss. lower r = ps @ lower (trim ws q) @ ss)"
    unfolding includes_str_iff by blast+
  show ?thesis
  proof (intro exI conjI)
    show "search lower ws cs q = Some ?rs" by (fact eq)
    show "length ?rs \<le> 10" by (fact len)
    show "\<forall>r\<in>set ?rs. r \<in> set cs \<and> (\<exists>ps ss. lower r = ps @ lower (trim ws q) @ ss)"
      by (fact sub)
  qed
qed

lemma performSearch_short: "length q < 2 \<Longrightarrow> performSearch lower cs q = None"
  by (simp add: performSearch_def)

lemma performSearch_long:
  assumes "2 \<le> length q"
  shows "\<exists>rs. performSearch lower cs q = Some rs \<and> length rs \<le> 10 \<and>
           (\<forall>r\<in>set rs. r \<in> set cs \<and> (\<exists>ps ss. lower r = ps @ lower q @ ss))"
proof -
  let ?P = "\<lambda>c. includes_str (lower c) (lower q)"
  let ?rs = "take 10 (filter ?P cs)"
  from assms have "q \<noteq> []" by auto
  with assms have eq: "performSearch lower cs q = Some ?rs"
    by (simp add: performSearch_def)
  from matches_bounded [of ?P cs]
  have len: "length ?rs \<le> 10"
    and sub: "\<forall>r\<in>set ?rs. r \<in> set cs \<and> (\<exists>ps ss. lower r = ps @ lower q @ ss)"
    unfolding includes_str_iff by blast+
  show ?thesis
  proof (intro exI conjI)
    show "performSearch lower cs q = Some ?rs" by (fact eq)
    show "length ?rs \<le> 10" by (fact len)
    show "\<forall>r\<in>set ?rs. r \<in> set cs \<and> (\<exists>ps ss. lower r = ps @ lower q @ ss)"
      by (fact sub)
  qed
qed

subsection \<open>C9: what a search shows\<close>

text \<open>
  C9, as stated, fails for \<open>performSearch\<close> of src/yatish/script.js, which tests the length of
  the query as typed: the query "a " has one character once trimmed, and the search shows a
  result for it.
\<close>

theorem C9_counterexample:
  "length (trim whitespace_ascii ''a '') = 1 \<and>
   performSearch toLowerCase_ascii [''Kadapa'', ''Anna Nagar''] ''a '' = Some [''Anna Nagar'']"
  by code_simp

text \<open>
  C9, amended. \<open>search\<close> of src/script.js shows no results when the trimmed query has fewer than
  2 characters, and otherwise at most 10 of the constituency names, each containing the
  trimmed query when both are put in lower case. \<open>performSearch\<close> of src/yatish/script.js does
  the same with the query as typed, untrimmed.
\<close>

theorem C9_search_results:
  "(length (trim ws q) < 2 \<longrightarrow> search lower ws cs q = None) \<and>
   (2 \<le> length (trim ws q) \<longrightarrow>
      (\<exists>rs. search lower ws cs q = Some rs \<and> length rs \<le> 10 \<and>
         (\<forall>r\<in>set rs. r \<in> set cs \<and> (\<exists>ps ss. lower r = ps @ lower (trim ws q) @ ss)))) \<and>
   (length q < 2 \<longrightarrow> performSearch lower cs q = None) \<and>
   (2 \<le> length q \<longrightarrow>
      (\<exists>rs. performSearch lower cs q = Some rs \<and> length rs \<le> 10 \<and>
         (\<forall>r\<in>set rs. r \<in> set cs \<and> (\<exists>ps ss. lower r = ps @ lower q @ ss))))"
  using search_short [of ws q lower cs] search_long [of ws q lower cs]
    performSearch_short [of q lower cs] performSearch_long [of q lower cs]
  by blast

text \<open>C9, amended, on three names and the queries " a ", " ya ", "a" and "DA".\<close>

theorem C9_search_results_witness:
  "length (trim whitespace_ascii '' a '') < 2 \<and>
   search toLowerCase_ascii whitespace_ascii [''Kadapa'', ''Anna Nagar'', ''RAYACHOTY''] '' a '' = None \<and>
   2 \<le> length (trim whitespace_ascii '' ya '') \<and>
   search toLowerCase_ascii whitespace_ascii [''Kadapa'', ''Anna Nagar'', ''RAYACHOTY''] '' ya ''
     = Some [''RAYACHOTY''] \<and>
   length ''a'' < 2 \<and>
   performSearch toLowerCase_ascii [''Kadapa'', ''Anna Nagar'', ''RAYACHOTY''] ''a'' = None \<and>
   performSearch toLowerCase_ascii [''Kadapa'', ''Anna Nagar'', ''RAYACHOTY''] ''DA''
     = Some [''Kadapa'']"
proof -
  let ?cs = "[''Kadapa'', ''Anna Nagar'', ''RAYACHOTY'']"
  have a: "length (trim whitespace_ascii '' a '') < 2" by code_simp
  have b: "2 \<le> length (trim whitespace_ascii '' ya '')" by code_simp
  have c: "length ''a'' < 2" by simp
  have d: "search toLowerCase_ascii whitespace_ascii ?cs '' ya '' = Some [''RAYACHOTY'']"
    by code_simp
  have e: "performSearch toLowerCase_ascii ?cs ''DA'' = Some [''Kadapa'']"
    by code_simp
  from C9_search_results [of whitespace_ascii "'' a ''" toLowerCase_ascii ?cs] a
  have f: "search toLowerCase_ascii whitespace_ascii ?cs '' a '' = None"
    by blast
  from C9_search_results [of whitespace_ascii "''a''" toLowerCase_ascii ?cs] c
  have g: "performSearch toLowerCase_ascii ?cs ''a'' = None"
    by blast
  from a b c d e f g show ?thesis by (intro conjI)
qed

section \<open>Properties of the transaction feed\<close>













subsection \<open>C10: the feed stays within five entries\<close>



section \<open>Properties of what the application shows\<close>

lemma set_content_fields:
  "dom (set_content el v s) x = (if x = el \<and> dom s el \<noteq> None then Some v else dom s x)"
  "liveVoteCount (set_content el v s) = liveVoteCount s"
  "charts (set_content el v s) = charts s"
  "initialized (set_content el v s) = initialized s"
  by (simp_all add: set_content_def)

lemma updateChart_fields:
  "dom (updateChart c d s) = dom s"
  "liveVoteCount (updateChart c d s) = liveVoteCount s"
  "charts (updateChart c d s) x = (if x = c \<and> charts s c \<noteq> None then Some d else charts s x)"
  "initialized (updateChart c d s) = initialized s"
  by (simp_all add: updateChart_def)

lemma updateVotes_fields:
  "liveVoteCount (updateVotes e s) =
     (case current_turnout e of Some n \<Rightarrow> if n \<noteq> 0 then n else liveVoteCount s
      | None \<Rightarrow> liveVoteCount s)"
  "dom (updateVotes e s) x =
     (if x = ''liveVoteCount'' \<and> dom s ''liveVoteCount'' \<noteq> None
      then Some (LocaleNumber (liveVoteCount (updateVotes e s))) else dom s x)"
  "charts (updateVotes e s) = charts s"
  "initialized (updateVotes e s) = initialized s"
  by (simp_all add: updateVotes_def Let_def set_content_fields)

lemma updateAIInsights_fields:
  "liveVoteCount (updateAIInsights is s) = liveVoteCount s"
  "dom (updateAIInsights is s) x =
     (if is \<noteq> [] \<and> x = ''other-insights-content'' \<and> dom s x \<noteq> None then Some (Cards is)
      else if is \<noteq> [] \<and> x = ''analysis-summary-text'' \<and> dom s x \<noteq> None
      then Some (Cards (take 3 is)) else dom s x)"
  "charts (updateAIInsights is s) = charts s"
  "initialized (updateAIInsights is s) = initialized s"
  by (simp_all add: updateAIInsights_def set_content_fields)

lemma updateAnalytics_fields:
  "liveVoteCount (updateAnalytics a s) = liveVoteCount s"
  "charts (updateAnalytics a s) = charts s"
  "initialized (updateAnalytics a s) = initialized s"
  by (simp_all add: updateAnalytics_def set_content_fields split: option.splits)

lemma updateAnalytics_dom:
  "dom (updateAnalytics (Some a) s) x =
     (if dom s x = None then None
      else if x = ''high-importance'' then Some (high_importance_text a)
      else if x = ''avg-confidence'' then Some (avg_confidence_text a)
      else if x = ''total-insights'' then Some (total_insights_text a)
      else if x = ''total-votes'' then Some (total_votes_text a)
      else dom s x)"
  by (simp add: updateAnalytics_def set_content_fields)

lemma updateDemographicChartsData_fields:
  "liveVoteCount (updateDemographicChartsData d s) = liveVoteCount s"
  "dom (updateDemographicChartsData d s) = dom s"
  "initialized (updateDemographicChartsData d s) = initialized s"
  by (simp_all add: updateDemographicChartsData_def updateChart_fields split: option.splits)

lemmas handler_fields = updateVotes_fields updateAIInsights_fields updateAnalytics_fields
  updateAnalytics_dom updateDemographicChartsData_fields

lemma hvu_initialized:
  "initialized s \<Longrightarrow> initialized (handleVotingUpdate h data s)"
  by (simp add: handleVotingUpdate_def Let_def handler_fields split: option.splits)

lemma hvu_liveVoteCount:
  "initialized s \<Longrightarrow>
   liveVoteCount (handleVotingUpdate h data s) =
     (case update_election_data data of
        Some e \<Rightarrow> (case current_turnout e of
                     Some n \<Rightarrow> if n \<noteq> 0 then n else liveVoteCount s
                   | None \<Rightarrow> liveVoteCount s)
      | None \<Rightarrow> liveVoteCount s)"
  by (simp add: handleVotingUpdate_def Let_def handler_fields split: option.splits)

lemma hvu_dom_liveVoteCount:
  "initialized s \<Longrightarrow>
   dom (handleVotingUpdate h data s) ''liveVoteCount'' =
     (case update_election_data data of
        Some e \<Rightarrow> if dom s ''liveVoteCount'' = None then None
                  else Some (LocaleNumber (liveVoteCount (handleVotingUpdate h data s)))
      | None \<Rightarrow> dom s ''liveVoteCount'')"
  by (simp add: handleVotingUpdate_def Let_def handler_fields split: option.splits)

lemma hvu_dom_summary:
  "initialized s \<Longrightarrow>
   dom (handleVotingUpdate h data s) ''analysis-summary-text'' =
     (case update_ai_insights data of
        Some is \<Rightarrow> if is = [] \<or> dom s ''analysis-summary-text'' = None
                   then dom s ''analysis-summary-text'' else Some (Cards (take 3 is))
      | None \<Rightarrow> dom s ''analysis-summary-text'')"
  by (auto simp add: handleVotingUpdate_def Let_def handler_fields split: option.splits)

lemma hvu_dom_other:
  "initialized s \<Longrightarrow>
   dom (handleVotingUpdate h data s) ''other-insights-content'' =
     (case update_ai_insights data of
        Some is \<Rightarrow> if is = [] \<or> dom s ''other-insights-content'' = None
                   then dom s ''other-insights-content'' else Some (Cards is)
      | None \<Rightarrow> dom s ''other-insights-content'')"
  by (auto simp add: handleVotingUpdate_def Let_def handler_fields split: option.splits)

lemma hvu_dom_analytics:
  "initialized s \<Longrightarrow>
   dom (handleVotingUpdate h data s) ''total-votes'' =
     (case update_analytics data of
        Some a \<Rightarrow> if dom s ''total-votes'' = None then None else Some (total_votes_text a)
      | None \<Rightarrow> dom s ''total-votes'') \<and>
   dom (handleVotingUpdate h data s) ''total-insights'' =
     (case update_analytics data of
        Some a \<Rightarrow> if dom s ''total-insights'' = None then None else Some (total_insights_text a)
      | None \<Rightarrow> dom s ''total-insights'') \<and>
   dom (handleVotingUpdate h data s) ''avg-confidence'' =
     (case update_analytics data of
        Some a \<Rightarrow> if dom s ''avg-confidence'' = None then None else Some (avg_confidence_text a)
      | None \<Rightarrow> dom s ''avg-confidence'') \<and>
   dom (handleVotingUpdate h data s) ''high-importance'' =
     (case update_analytics data of
        Some a \<Rightarrow> if dom s ''high-importance'' = None then None else Some (high_importance_text a)
      | None \<Rightarrow> dom s ''high-importance'')"
  by (simp add: handleVotingUpdate_def Let_def handler_fields split: option.splits)

lemma hvu_charts_unchanged:
  "initialized s \<Longrightarrow>
   update_analytics data = None \<or>
   (\<exists>a. update_analytics data = Some a \<and> analytics_demographics a = None) \<Longrightarrow>
   charts (handleVotingUpdate h data s) = charts s"
  by (auto simp add: handleVotingUpdate_def Let_def handler_fields split: option.splits)

lemma hvu_charts_demographics:
  "initialized s \<Longrightarrow> update_analytics data = Some a \<Longrightarrow> analytics_demographics a = Some d \<Longrightarrow>
   charts (handleVotingUpdate h data s) ''ageGroupDistributionChart'' =
     (if charts s ''ageGroupDistributionChart'' = None then None
      else Some (Counts (counts_of (age_groups d)))) \<and>
   charts (handleVotingUpdate h data s) ''genderVotingTrendsChart'' =
     (if charts s ''genderVotingTrendsChart'' = None then None
      else Some (Counts (counts_of (gender d)))) \<and>
   charts (handleVotingUpdate h data s) ''locationParticipationChart'' =
     (if charts s ''locationParticipationChart'' = None then None
      else Some (Counts (counts_of (locations d))))"
  by (auto simp add: handleVotingUpdate_def Let_def handler_fields updateDemographicChartsData_def
      updateChart_fields split: option.splits)

lemma handlePredictionUpdate_guard:
  "handlePredictionUpdate None s = Inr s"
  "predictions d = None \<or> predictions d = Some [] \<Longrightarrow> handlePredictionUpdate (Some d) s = Inr s"
  "predictions d = Some (p # ps) \<Longrightarrow> probability p = None \<Longrightarrow> dom s ''.prediction-text'' \<noteq> None \<Longrightarrow>
   handlePredictionUpdate (Some d) s = Inl TypeError"
  by (auto simp add: handlePredictionUpdate_def)

lemma hvu_nothing:
  "initialized s \<Longrightarrow> update_election_data data = None \<Longrightarrow> update_ai_insights data = None \<Longrightarrow>
   update_analytics data = None \<Longrightarrow> handleVotingUpdate h data s = s"
  by (simp add: handleVotingUpdate_def)

lemma analytics_defaults:
  "analytics_candidates a = None \<Longrightarrow> total_votes_text a = Text ''0''"
  "analytics_ai_insights a = None \<Longrightarrow> total_insights_text a = Text ''0''"
  "analytics_ai_insights a = None \<Longrightarrow> high_importance_text a = Text ''N/A''"
  "analytics_ai_predictions a = None \<Longrightarrow> avg_confidence_text a = Text ''N/A''"
  by (simp_all add: total_votes_text_def total_insights_text_def high_importance_text_def
      avg_confidence_text_def)

subsection \<open>C6: what an update replaces and what it keeps\<close>

text \<open>
  C6, as stated, fails: a category that is present does not always replace what is shown. On
  an initialized application, an update with \<open>ai_insights: []\<close> and an \<open>election_data\<close>
  without \<open>current_turnout\<close> leaves the insight of an earlier update on the page and the
  live vote count at its former value (\<open>updateAIInsights\<close> returns on an empty list,
  \<open>updateVotes\<close> falls back to the former count).
\<close>

theorem C6_counterexample:
  "dom (handleVotingUpdate (\<lambda>d s. s)
          \<lparr>update_election_data = Some \<lparr>current_turnout = None, candidates = None\<rparr>,
           update_ai_insights = Some [], update_analytics = None\<rparr>
          \<lparr>initialized = True, liveVoteCount = 100,
           dom = [''analysis-summary-text'' \<mapsto> Cards [InsightText ''old'']],
           charts = Map.empty\<rparr>) ''analysis-summary-text'' =
     Some (Cards [InsightText ''old'']) \<and>
   liveVoteCount (handleVotingUpdate (\<lambda>d s. s)
          \<lparr>update_election_data = Some \<lparr>current_turnout = None, candidates = None\<rparr>,
           update_ai_insights = Some [], update_analytics = None\<rparr>
          \<lparr>initialized = True, liveVoteCount = 100,
           dom = [''analysis-summary-text'' \<mapsto> Cards [InsightText ''old'']],
           charts = Map.empty\<rparr>) = 100"
  by (simp add: handleVotingUpdate_def updateVotes_def updateAIInsights_def set_content_def)

text \<open>
  C6, amended. For \<open>VotingAnalyticsApp.handleVotingUpdate\<close> of src/script.js, on an initialized
  application (\<open>s'\<close> is the state after the update):
  \<^item> without \<open>election_data\<close> the live vote count and its element stay as they were; without
    \<open>ai_insights\<close>, or with an empty list, the two insight containers stay as they were;
    without \<open>analytics\<close> the charts and the four analytics texts stay as they were;
  \<^item> a non-empty list of insights replaces both insight containers (the first three in the
    summary), whatever they showed;
  \<^item> election data with a non-zero \<open>current_turnout\<close> replaces the live vote count, with none
    or zero the former count stays;
  \<^item> an analytics object replaces the four analytics texts by texts of that object alone, and
    its demographics, when present, replace the data of the three demographic charts;
  \<^item> after two updates in a row, the second without \<open>ai_insights\<close>, the insight containers
    show the insights of the first (when it had some) and the live vote count and the
    total of votes are those of the second.
  An element or chart the page does not have stays absent.
\<close>

theorem C6_categories_replaced_or_kept:
  assumes "initialized s"
  shows
    "(update_election_data data = None \<longrightarrow>
        liveVoteCount (handleVotingUpdate h data s) = liveVoteCount s \<and>
        dom (handleVotingUpdate h data s) ''liveVoteCount'' = dom s ''liveVoteCount'') \<and>
     (update_ai_insights data = None \<or> update_ai_insights data = Some [] \<longrightarrow>
        dom (handleVotingUpdate h data s) ''analysis-summary-text'' =
          dom s ''analysis-summary-text'' \<and>
        dom (handleVotingUpdate h data s) ''other-insights-content'' =
          dom s ''other-insights-content'') \<and>
     (update_analytics data = None \<longrightarrow>
        charts (handleVotingUpdate h data s) = charts s \<and>
        dom (handleVotingUpdate h data s) ''total-votes'' = dom s ''total-votes'' \<and>
        dom (handleVotingUpdate h data s) ''total-insights'' = dom s ''total-insights'' \<and>
        dom (handleVotingUpdate h data s) ''avg-confidence'' = dom s ''avg-confidence'' \<and>
        dom (handleVotingUpdate h data s) ''high-importance'' = dom s ''high-importance'') \<and>
     (update_ai_insights data = Some ins \<and> ins \<noteq> [] \<longrightarrow>
        dom (handleVotingUpdate h data s) ''analysis-summary-text'' =
          (if dom s ''analysis-summary-text'' = None then None else Some (Cards (take 3 ins))) \<and>
        dom (handleVotingUpdate h data s) ''other-insights-content'' =
          (if dom s ''other-insights-content'' = None then None else Some (Cards ins))) \<and>
     (update_election_data data = Some e \<longrightarrow>
        liveVoteCount (handleVotingUpdate h data s) =
          (case current_turnout e of
             Some n \<Rightarrow> if n \<noteq> 0 then n else liveVoteCount s
           | None \<Rightarrow> liveVoteCount s) \<and>
        dom (handleVotingUpdate h data s) ''liveVoteCount'' =
          (if dom s ''liveVoteCount'' = None then None
           else Some (LocaleNumber (liveVoteCount (handleVotingUpdate h data s))))) \<and>
     (update_analytics data = Some a \<longrightarrow>
        dom (handleVotingUpdate h data s) ''total-votes'' =
          (if dom s ''total-votes'' = None then None else Some (total_votes_text a)) \<and>
        dom (handleVotingUpdate h data s) ''total-insights'' =
          (if dom s ''total-insights'' = None then None else Some (total_insights_text a)) \<and>
        dom (handleVotingUpdate h data s) ''avg-confidence'' =
          (if dom s ''avg-confidence'' = None then None else Some (avg_confidence_text a)) \<and>
        dom (handleVotingUpdate h data s) ''high-importance'' =
          (if dom s ''high-importance'' = None then None else Some (high_importance_text a))) \<and>
     (update_analytics data = Some a \<and> analytics_demographics a = Some d \<longrightarrow>
        charts (handleVotingUpdate h data s) ''ageGroupDistributionChart'' =
          (if charts s ''ageGroupDistributionChart'' = None then None
           else Some (Counts (counts_of (age_groups d)))) \<and>
        charts (handleVotingUpdate h data s) ''genderVotingTrendsChart'' =
          (if charts s ''genderVotingTrendsChart'' = None then None
           else Some (Counts (counts_of (gender d)))) \<and>
        charts (handleVotingUpdate h data s) ''locationParticipationChart'' =
          (if charts s ''locationParticipationChart'' = None then None
           else Some (Counts (counts_of (locations d))))) \<and>
     (update_ai_insights data = Some ins \<and> ins \<noteq> [] \<and> update_ai_insights later = None \<and>
      update_election_data later = Some e \<and> current_turnout e = Some n \<and> n \<noteq> 0 \<and>
      update_analytics later = Some a \<longrightarrow>
        dom (handleVotingUpdate h later (handleVotingUpdate h data s)) ''analysis-summary-text'' =
          (if dom s ''analysis-summary-text'' = None then None else Some (Cards (take 3 ins))) \<and>
        dom (handleVotingUpdate h later (handleVotingUpdate h data s)) ''other-insights-content'' =
          (if dom s ''other-insights-content'' = None then None else Some (Cards ins)) \<and>
        liveVoteCount (handleVotingUpdate h later (handleVotingUpdate h data s)) = n \<and>
        dom (handleVotingUpdate h later (handleVotingUpdate h data s)) ''total-votes'' =
          (if dom s ''total-votes'' = None then None else Some (total_votes_text a)))"
proof -
  let ?s1 = "handleVotingUpdate h data s"
  have i1: "initialized ?s1" by (rule hvu_initialized [OF assms])
  have f1: "update_election_data data = None \<longrightarrow>
        liveVoteCount ?s1 = liveVoteCount s \<and> dom ?s1 ''liveVoteCount'' = dom s ''liveVoteCount''"
    by (simp add: hvu_liveVoteCount [OF assms] hvu_dom_liveVoteCount [OF assms])
  have f2: "update_ai_insights data = None \<or> update_ai_insights data = Some [] \<longrightarrow>
        dom ?s1 ''analysis-summary-text'' = dom s ''analysis-summary-text'' \<and>
        dom ?s1 ''other-insights-content'' = dom s ''other-insights-content''"
    by (auto simp add: hvu_dom_summary [OF assms] hvu_dom_other [OF assms])
  have f3: "update_analytics data = None \<longrightarrow>
        charts ?s1 = charts s \<and>
        dom ?s1 ''total-votes'' = dom s ''total-votes'' \<and>
        dom ?s1 ''total-insights'' = dom s ''total-insights'' \<and>
        dom ?s1 ''avg-confidence'' = dom s ''avg-confidence'' \<and>
        dom ?s1 ''high-importance'' = dom s ''high-importance''"
    using hvu_dom_analytics [OF assms, of h data] hvu_charts_unchanged [OF assms, of data h]
    by simp
  have r1: "update_ai_insights data = Some ins \<and> ins \<noteq> [] \<longrightarrow>
        dom ?s1 ''analysis-summary-text'' =
          (if dom s ''analysis-summary-text'' = None then None else Some (Cards (take 3 ins))) \<and>
        dom ?s1 ''other-insights-content'' =
          (if dom s ''other-insights-content'' = None then None else Some (Cards ins))"
    by (simp add: hvu_dom_summary [OF assms] hvu_dom_other [OF assms])
  have r2: "update_election_data data = Some e \<longrightarrow>
        liveVoteCount ?s1 =
          (case current_turnout e of
             Some n \<Rightarrow> if n \<noteq> 0 then n else liveVoteCount s
           | None \<Rightarrow> liveVoteCount s) \<and>
        dom ?s1 ''liveVoteCount'' =
          (if dom s ''liveVoteCount'' = None then None
           else Some (LocaleNumber (liveVoteCount ?s1)))"
    using hvu_liveVoteCount [OF assms, of h data] hvu_dom_liveVoteCount [OF assms, of h data]
    by simp
  have r3: "update_analytics data = Some a \<longrightarrow>
        dom ?s1 ''total-votes'' =
          (if dom s ''total-votes'' = None then None else Some (total_votes_text a)) \<and>
        dom ?s1 ''total-insights'' =
          (if dom s ''total-insights'' = None then None else Some (total_insights_text a)) \<and>
        dom ?s1 ''avg-confidence'' =
          (if dom s ''avg-confidence'' = None then None else Some (avg_confidence_text a)) \<and>
        dom ?s1 ''high-importance'' =
          (if dom s ''high-importance'' = None then None else Some (high_importance_text a))"
    using hvu_dom_analytics [OF assms, of h data] by simp
  have r4: "update_analytics data = Some a \<and> analytics_demographics a = Some d \<longrightarrow>
        charts ?s1 ''ageGroupDistributionChart'' =
          (if charts s ''ageGroupDistributionChart'' = None then None
           else Some (Counts (counts_of (age_groups d)))) \<and>
        charts ?s1 ''genderVotingTrendsChart'' =
          (if charts s ''genderVotingTrendsChart'' = None then None
           else Some (Counts (counts_of (gender d)))) \<and>
        charts ?s1 ''locationParticipationChart'' =
          (if charts s ''locationParticipationChart'' = None then None
           else Some (Counts (counts_of (locations d))))"
    using hvu_charts_demographics [OF assms, of data a d h] by blast
  have sc: "update_ai_insights data = Some ins \<and> ins \<noteq> [] \<and> update_ai_insights later = None \<and>
      update_election_data later = Some e \<and> current_turnout e = Some n \<and> n \<noteq> 0 \<and>
      update_analytics later = Some a \<longrightarrow>
        dom (handleVotingUpdate h later ?s1) ''analysis-summary-text'' =
          (if dom s ''analysis-summary-text'' = None then None else Some (Cards (take 3 ins))) \<and>
        dom (handleVotingUpdate h later ?s1) ''other-insights-content'' =
          (if dom s ''other-insights-content'' = None then None else Some (Cards ins)) \<and>
        liveVoteCount (handleVotingUpdate h later ?s1) = n \<and>
        dom (handleVotingUpdate h later ?s1) ''total-votes'' =
          (if dom s ''total-votes'' = None then None else Some (total_votes_text a))"
  proof (intro impI, elim conjE)
    assume a: "update_ai_insights data = Some ins" "ins \<noteq> []" "update_ai_insights later = None"
      "update_election_data later = Some e" "current_turnout e = Some n" "n \<noteq> 0"
      "update_analytics later = Some a"
    have tv: "dom ?s1 ''total-votes'' = None \<longleftrightarrow> dom s ''total-votes'' = None"
      using hvu_dom_analytics [OF assms, of h data] by (simp split: option.splits)
    from a show "dom (handleVotingUpdate h later ?s1) ''analysis-summary-text'' =
          (if dom s ''analysis-summary-text'' = None then None else Some (Cards (take 3 ins))) \<and>
        dom (handleVotingUpdate h later ?s1) ''other-insights-content'' =
          (if dom s ''other-insights-content'' = None then None else Some (Cards ins)) \<and>
        liveVoteCount (handleVotingUpdate h later ?s1) = n \<and>
        dom (handleVotingUpdate h later ?s1) ''total-votes'' =
          (if dom s ''total-votes'' = None then None else Some (total_votes_text a))"
      using hvu_dom_summary [OF i1, of h later] hvu_dom_other [OF i1, of h later]
        hvu_liveVoteCount [OF i1, of h later] hvu_dom_analytics [OF i1, of h later]
        hvu_dom_summary [OF assms, of h data] hvu_dom_other [OF assms, of h data] tv
      by simp
  qed
  from f1 f2 f3 r1 r2 r3 r4 sc show ?thesis by (intro conjI)
qed

text \<open>C6, amended, on two updates in a row: the first with one insight and a turnout of 10,
  the second without insights, with a turnout of 20 and two candidates of 12 and 8 votes.\<close>

theorem C6_categories_replaced_or_kept_witness:
  "initialized \<lparr>initialized = True, liveVoteCount = 0,
      dom = [''liveVoteCount'' \<mapsto> Text ''0'', ''analysis-summary-text'' \<mapsto> Text [],
             ''total-votes'' \<mapsto> Text ''0''],
      charts = Map.empty\<rparr> \<and>
   dom (handleVotingUpdate (\<lambda>d s. s)
     \<lparr>update_election_data = Some \<lparr>current_turnout = Some 20, candidates = None\<rparr>,
      update_ai_insights = None,
      update_analytics = Some \<lparr>analytics_candidates =
          Some [\<lparr>name = ''A'', votes = 12\<rparr>, \<lparr>name = ''B'', votes = 8\<rparr>],
        analytics_ai_insights = None, analytics_ai_predictions = None,
        analytics_demographics = None\<rparr>\<rparr>
     (handleVotingUpdate (\<lambda>d s. s)
       \<lparr>update_election_data = Some \<lparr>current_turnout = Some 10, candidates = None\<rparr>,
        update_ai_insights = Some [InsightText ''first''], update_analytics = None\<rparr>
       \<lparr>initialized = True, liveVoteCount = 0,
        dom = [''liveVoteCount'' \<mapsto> Text ''0'', ''analysis-summary-text'' \<mapsto> Text [],
               ''total-votes'' \<mapsto> Text ''0''],
        charts = Map.empty\<rparr>)) ''analysis-summary-text'' = Some (Cards [InsightText ''first'']) \<and>
   liveVoteCount (handleVotingUpdate (\<lambda>d s. s)
     \<lparr>update_election_data = Some \<lparr>current_turnout = Some 20, candidates = None\<rparr>,
      update_ai_insights = None,
      update_analytics = Some \<lparr>analytics_candidates =
          Some [\<lparr>name = ''A'', votes = 12\<rparr>, \<lparr>name = ''B'', votes = 8\<rparr>],
        analytics_ai_insights = None, analytics_ai_predictions = None,
        analytics_demographics = None\<rparr>\<rparr>
     (handleVotingUpdate (\<lambda>d s. s)
       \<lparr>update_election_data = Some \<lparr>current_turnout = Some 10, candidates = None\<rparr>,
        update_ai_insights = Some [InsightText ''first''], update_analytics = None\<rparr>
       \<lparr>initialized = True, liveVoteCount = 0,
        dom = [''liveVoteCount'' \<mapsto> Text ''0'', ''analysis-summary-text'' \<mapsto> Text [],
               ''total-votes'' \<mapsto> Text ''0''],
        charts = Map.empty\<rparr>)) = 20 \<and>
   dom (handleVotingUpdate (\<lambda>d s. s)
     \<lparr>update_election_data = Some \<lparr>current_turnout = Some 20, candidates = None\<rparr>,
      update_ai_insights = None,
      update_analytics = Some \<lparr>analytics_candidates =
          Some [\<lparr>name = ''A'', votes = 12\<rparr>, \<lparr>name = ''B'', votes = 8\<rparr>],
        analytics_ai_insights = None, analytics_ai_predictions = None,
        analytics_demographics = None\<rparr>\<rparr>
     (handleVotingUpdate (\<lambda>d s. s)
       \<lparr>update_election_data = Some \<lparr>current_turnout = Some 10, candidates = None\<rparr>,
        update_ai_insights = Some [InsightText ''first''], update_analytics = None\<rparr>
       \<lparr>initialized = True, liveVoteCount = 0,
        dom = [''liveVoteCount'' \<mapsto> Text ''0'', ''analysis-summary-text'' \<mapsto> Text [],
               ''total-votes'' \<mapsto> Text ''0''],
        charts = Map.empty\<rparr>)) ''total-votes'' = Some (LocaleNumber 20)"
proof -
  let ?s = "\<lparr>initialized = True, liveVoteCount = 0,
      dom = [''liveVoteCount'' \<mapsto> Text ''0'', ''analysis-summary-text'' \<mapsto> Text [],
             ''total-votes'' \<mapsto> Text ''0''],
      charts = Map.empty\<rparr>"
  let ?e = "\<lparr>current_turnout = Some 20, candidates = None\<rparr>"
  let ?a = "\<lparr>analytics_candidates = Some [\<lparr>name = ''A'', votes = 12\<rparr>, \<lparr>name = ''B'', votes = 8\<rparr>],
        analytics_ai_insights = None, analytics_ai_predictions = None,
        analytics_demographics = None\<rparr>"
  let ?d1 = "\<lparr>update_election_data = Some \<lparr>current_turnout = Some 10, candidates = None\<rparr>,
        update_ai_insights = Some [InsightText ''first''], update_analytics = None\<rparr>"
  let ?d2 = "\<lparr>update_election_data = Some ?e, update_ai_insights = None,
      update_analytics = Some ?a\<rparr>"
  have i: "initialized ?s" by simp
  have tv: "total_votes_text ?a = LocaleNumber 20" by (simp add: total_votes_text_def)
  from C6_categories_replaced_or_kept [OF i, where data = ?d1 and later = ?d2
      and ins = "[InsightText ''first'']" and e = ?e and n = 20 and a = ?a and h = "\<lambda>d s. s"]
  have "dom (handleVotingUpdate (\<lambda>d s. s) ?d2 (handleVotingUpdate (\<lambda>d s. s) ?d1 ?s))
          ''analysis-summary-text'' = Some (Cards [InsightText ''first'']) \<and>
        liveVoteCount (handleVotingUpdate (\<lambda>d s. s) ?d2 (handleVotingUpdate (\<lambda>d s. s) ?d1 ?s)) = 20 \<and>
        dom (handleVotingUpdate (\<lambda>d s. s) ?d2 (handleVotingUpdate (\<lambda>d s. s) ?d1 ?s))
          ''total-votes'' = Some (total_votes_text ?a)"
    by simp
  with i tv show ?thesis by simp
qed

subsection \<open>C7: malformed payloads\<close>

text \<open>
  C7, as stated, fails: a payload that lacks a field is not always dropped. An analytics
  object with no field at all overwrites a total of 1234 votes with "0", and a prediction
  update without \<open>leading_candidate\<close> is written to the page (with "undefined" for the
  name).
\<close>

theorem C7_counterexample:
  "dom (updateAnalytics
          (Some \<lparr>analytics_candidates = None, analytics_ai_insights = None,
                 analytics_ai_predictions = None, analytics_demographics = None\<rparr>)
          \<lparr>initialized = True, liveVoteCount = 0,
           dom = [''total-votes'' \<mapsto> LocaleNumber 1234], charts = Map.empty\<rparr>) ''total-votes'' =
     Some (Text ''0'') \<and>
   (case handlePredictionUpdate
           (Some \<lparr>predictions = Some [\<lparr>prediction_name = Some ''A'', probability = Some 55\<rparr>],
                  leading_candidate = None, update_confidence = None\<rparr>)
           \<lparr>initialized = True, liveVoteCount = 0,
            dom = [''.prediction-text'' \<mapsto> Text ''old''], charts = Map.empty\<rparr> of
      Inl err \<Rightarrow> None
    | Inr s' \<Rightarrow> dom s' ''.prediction-text'') = Some (PredictionText None 55)"
  by (simp add: updateAnalytics_def set_content_def total_votes_text_def handlePredictionUpdate_def
      updateChart_def Let_def)

text \<open>
  C7, amended. The payloads that a handler's guard rejects change nothing: a prediction update
  that is \<open>null\<close>, has no \<open>predictions\<close> or an empty list of them; a \<open>null\<close> analytics object, an
  empty list of insights, \<open>null\<close> demographics; and, on an initialized application, a voting
  update with none of its three categories. A prediction update whose first prediction has no
  probability throws, on a page with \<open>.prediction-text\<close>, before anything is written. Beyond
  the guards a missing field is not rejected but shown by its default: an analytics object
  without \<open>candidates\<close>, \<open>ai_insights\<close> or \<open>ai_predictions\<close> writes "0", "0" and "N/A".
\<close>

theorem C7_rejected_payloads_change_nothing:
  "handlePredictionUpdate None s = Inr s \<and>
   (predictions d = None \<or> predictions d = Some [] \<longrightarrow> handlePredictionUpdate (Some d) s = Inr s) \<and>
   (predictions d = Some (p # ps) \<and> probability p = None \<and> dom s ''.prediction-text'' \<noteq> None \<longrightarrow>
      handlePredictionUpdate (Some d) s = Inl TypeError) \<and>
   updateAnalytics None s = s \<and>
   updateAIInsights [] s = s \<and>
   updateDemographicChartsData None s = s \<and>
   (initialized s \<and> update_election_data data = None \<and> update_ai_insights data = None \<and>
    update_analytics data = None \<longrightarrow> handleVotingUpdate h data s = s) \<and>
   dom (updateAnalytics (Some a) s) ''total-votes'' =
     (if dom s ''total-votes'' = None then None else Some (total_votes_text a)) \<and>
   dom (updateAnalytics (Some a) s) ''total-insights'' =
     (if dom s ''total-insights'' = None then None else Some (total_insights_text a)) \<and>
   dom (updateAnalytics (Some a) s) ''avg-confidence'' =
     (if dom s ''avg-confidence'' = None then None else Some (avg_confidence_text a)) \<and>
   dom (updateAnalytics (Some a) s) ''high-importance'' =
     (if dom s ''high-importance'' = None then None else Some (high_importance_text a)) \<and>
   (analytics_candidates a = None \<longrightarrow> total_votes_text a = Text ''0'') \<and>
   (analytics_ai_insights a = None \<longrightarrow>
      total_insights_text a = Text ''0'' \<and> high_importance_text a = Text ''N/A'') \<and>
   (analytics_ai_predictions a = None \<longrightarrow> avg_confidence_text a = Text ''N/A'')"
proof -
  have g: "updateAnalytics None s = s" "updateAIInsights [] s = s"
    "updateDemographicChartsData None s = s"
    by (simp_all add: updateAnalytics_def updateAIInsights_def updateDemographicChartsData_def)
  have d: "dom (updateAnalytics (Some a) s) ''total-votes'' =
     (if dom s ''total-votes'' = None then None else Some (total_votes_text a))"
   "dom (updateAnalytics (Some a) s) ''total-insights'' =
     (if dom s ''total-insights'' = None then None else Some (total_insights_text a))"
   "dom (updateAnalytics (Some a) s) ''avg-confidence'' =
     (if dom s ''avg-confidence'' = None then None else Some (avg_confidence_text a))"
   "dom (updateAnalytics (Some a) s) ''high-importance'' =
     (if dom s ''high-importance'' = None then None else Some (high_importance_text a))"
    by (simp_all add: updateAnalytics_dom)
  from g d handlePredictionUpdate_guard hvu_nothing [of s data h] analytics_defaults
  show ?thesis by blast
qed

text \<open>C7, amended, on a page that shows an old prediction: an update with an empty list of
  predictions, one whose prediction has no probability, and a voting update with no
  category.\<close>

theorem C7_rejected_payloads_change_nothing_witness:
  "handlePredictionUpdate
     (Some \<lparr>predictions = Some [], leading_candidate = Some ''A'', update_confidence = Some 90\<rparr>)
     \<lparr>initialized = True, liveVoteCount = 0,
      dom = [''.prediction-text'' \<mapsto> Text ''old''], charts = Map.empty\<rparr> =
   Inr \<lparr>initialized = True, liveVoteCount = 0,
        dom = [''.prediction-text'' \<mapsto> Text ''old''], charts = Map.empty\<rparr> \<and>
   handlePredictionUpdate
     (Some \<lparr>predictions = Some [\<lparr>prediction_name = Some ''A'', probability = None\<rparr>],
            leading_candidate = Some ''A'', update_confidence = Some 90\<rparr>)
     \<lparr>initialized = True, liveVoteCount = 0,
      dom = [''.prediction-text'' \<mapsto> Text ''old''], charts = Map.empty\<rparr> = Inl TypeError \<and>
   handleVotingUpdate (\<lambda>d s. s)
     \<lparr>update_election_data = None, update_ai_insights = None, update_analytics = None\<rparr>
     \<lparr>initialized = True, liveVoteCount = 0,
      dom = [''.prediction-text'' \<mapsto> Text ''old''], charts = Map.empty\<rparr> =
   \<lparr>initialized = True, liveVoteCount = 0,
    dom = [''.prediction-text'' \<mapsto> Text ''old''], charts = Map.empty\<rparr>"
proof -
  let ?s = "\<lparr>initialized = True, liveVoteCount = 0,
      dom = [''.prediction-text'' \<mapsto> Text ''old''], charts = Map.empty\<rparr>"
  let ?d0 = "\<lparr>predictions = Some [], leading_candidate = Some ''A'', update_confidence = Some 90\<rparr>"
  let ?p = "\<lparr>prediction_name = Some ''A'', probability = None\<rparr>"
  let ?d1 = "\<lparr>predictions = Some [?p], leading_candidate = Some ''A'', update_confidence = Some 90\<rparr>"
  let ?v = "\<lparr>update_election_data = None, update_ai_insights = None, update_analytics = None\<rparr>"
  from C7_rejected_payloads_change_nothing [where s = ?s and d = ?d0]
  have a: "handlePredictionUpdate (Some ?d0) ?s = Inr ?s" by simp
  from C7_rejected_payloads_change_nothing [where s = ?s and d = ?d1 and p = ?p and ps = "[]"]
  have b: "handlePredictionUpdate (Some ?d1) ?s = Inl TypeError" by simp
  from C7_rejected_payloads_change_nothing [where s = ?s and data = ?v and h = "\<lambda>d s. s"]
  have c: "handleVotingUpdate (\<lambda>d s. s) ?v ?s = ?s" by simp
  from a b c show ?thesis by (intro conjI)
qed

end
